theory Spec2Isabelle
  imports Main "HOL-Library.AList"
begin

section \<open>JavaScript values and the object store\<close>

text \<open>
  The two source files, \<^verbatim>\<open>src/index.js\<close> and its earlier variant
  \<^verbatim>\<open>src/unnamed/part_000\<close>, are Express applications. Their handlers read the parsed
  request body, build object literals, assign to a property of an object of the request
  and serialise the result with \<^verbatim>\<open>JSON.stringify\<close>. Objects and arrays are therefore
  cells of a store, and a value refers to them by address, so that two names for one
  object share its updates.

  A number is kept as the text \<^verbatim>\<open>Number::toString\<close> gives for it: the program only
  converts numbers to strings, tests them for truth and serialises them, and all three
  are functions of that text. A string is the list of its code units.
\<close>

type_synonym addr = nat

datatype val =
    Undefined
  | Null
  | Bool bool
  | Num string
  | Str string
  | Ref addr

text \<open>
  An object is its own properties in insertion order. An array is its elements, and the
  named own properties an assignment may have given it (none after parsing).
\<close>

datatype obj =
    Obj "(string \<times> val) list"
  | Arr "val list" "(string \<times> val) list"

type_synonym heap = "obj list"

text \<open>
  \<open>TypeError\<close> is the only exception this program can raise. \<open>Dangling\<close> marks a
  reference outside the store; no state of a JavaScript program has one, the store being
  an arbitrary list here.
\<close>

datatype error = TypeError | Dangling

definition bindE :: "error + 'a \<Rightarrow> ('a \<Rightarrow> error + 'b) \<Rightarrow> error + 'b" where
  "bindE m f = (case m of Inl e \<Rightarrow> Inl e | Inr x \<Rightarrow> f x)"

definition cell :: "heap \<Rightarrow> addr \<Rightarrow> obj option" where
  "cell h a = (if a < length h then Some (h ! a) else None)"

text \<open>An object or array literal: a new cell at the end of the store.\<close>

definition alloc :: "heap \<Rightarrow> obj \<Rightarrow> val \<times> heap" where
  "alloc h x = (Ref (length h), h @ [x])"

subsection \<open>Property reads and writes\<close>

datatype key = Prop string | Idx nat

definition digit :: "nat \<Rightarrow> char" where
  "digit d = ''0123456789'' ! d"

fun dec :: "nat \<Rightarrow> string" where
  "dec n = (if n < 10 then [digit n] else dec (n div 10) @ [digit (n mod 10)])"

declare dec.simps [simp del]

text \<open>The property name an index stands for: \<^verbatim>\<open>x[0]\<close> reads the property \<^verbatim>\<open>"0"\<close>.\<close>

fun key_name :: "key \<Rightarrow> string" where
  "key_name (Prop p) = p"
| "key_name (Idx i) = dec i"

definition own :: "(string \<times> val) list \<Rightarrow> string \<Rightarrow> val" where
  "own fs p = (case map_of fs p of None \<Rightarrow> Undefined | Some v \<Rightarrow> v)"

text \<open>
  \<^verbatim>\<open>v.p\<close> and \<^verbatim>\<open>v[i]\<close>. Reading a property of \<^verbatim>\<open>undefined\<close> or \<^verbatim>\<open>null\<close> throws; a
  primitive has no own property but the code units of a string. Inherited properties
  (\<^verbatim>\<open>length\<close>, the methods) are not values of this model: the program reads the names
  \<^verbatim>\<open>prefetch\<close>, \<^verbatim>\<open>requestedPatient\<close>, \<^verbatim>\<open>resource\<close>, \<^verbatim>\<open>name\<close>, \<^verbatim>\<open>given\<close>, \<^verbatim>\<open>family\<close>,
  \<^verbatim>\<open>context\<close>, \<^verbatim>\<open>draftOrders\<close>, \<^verbatim>\<open>entry\<close>, \<^verbatim>\<open>selections\<close>, \<^verbatim>\<open>resourceType\<close>, \<^verbatim>\<open>id\<close>,
  \<^verbatim>\<open>medicationCodeableConcept\<close>, \<^verbatim>\<open>coding\<close>, \<^verbatim>\<open>code\<close> and the index 0, none of which
  is inherited. The method \<^verbatim>\<open>includes\<close> is modelled on its own below.
\<close>

fun get :: "heap \<Rightarrow> val \<Rightarrow> key \<Rightarrow> error + val" where
  "get h Undefined k = Inl TypeError"
| "get h Null k = Inl TypeError"
| "get h (Bool b) k = Inr Undefined"
| "get h (Num n) k = Inr Undefined"
| "get h (Str s) (Prop p) = Inr Undefined"
| "get h (Str s) (Idx i) = Inr (if i < length s then Str [s ! i] else Undefined)"
| "get h (Ref a) k =
     (case cell h a of
        None \<Rightarrow> Inl Dangling
      | Some (Obj fs) \<Rightarrow> Inr (own fs (key_name k))
      | Some (Arr vs ps) \<Rightarrow>
          (case k of
             Idx i \<Rightarrow> Inr (if i < length vs then vs ! i else Undefined)
           | Prop p \<Rightarrow> Inr (own ps p)))"

text \<open>A chain of reads, \<^verbatim>\<open>v.a.b[0].c\<close>: the first that throws ends it.\<close>

fun get_path :: "heap \<Rightarrow> val \<Rightarrow> key list \<Rightarrow> error + val" where
  "get_path h v [] = Inr v"
| "get_path h v (k # ks) = bindE (get h v k) (\<lambda>w. get_path h w ks)"

text \<open>
  \<^verbatim>\<open>v.p = x\<close>. The property keeps its place when the object has it and is appended
  otherwise. The files are not in strict mode: assigning to a property of a primitive
  does nothing.
\<close>

fun set_prop :: "heap \<Rightarrow> val \<Rightarrow> string \<Rightarrow> val \<Rightarrow> error + heap" where
  "set_prop h Undefined p x = Inl TypeError"
| "set_prop h Null p x = Inl TypeError"
| "set_prop h (Bool b) p x = Inr h"
| "set_prop h (Num n) p x = Inr h"
| "set_prop h (Str s) p x = Inr h"
| "set_prop h (Ref a) p x =
     (case cell h a of
        None \<Rightarrow> Inl Dangling
      | Some (Obj fs) \<Rightarrow> Inr (h[a := Obj (AList.update p x fs)])
      | Some (Arr vs ps) \<Rightarrow> Inr (h[a := Arr vs (AList.update p x ps)]))"

subsection \<open>Conversions\<close>

text \<open>\<^verbatim>\<open>ToBoolean\<close>. Both zeros render as \<^verbatim>\<open>0\<close>.\<close>

fun truthy :: "val \<Rightarrow> bool" where
  "truthy Undefined = False"
| "truthy Null = False"
| "truthy (Bool b) = b"
| "truthy (Num n) = (n \<noteq> ''0'' \<and> n \<noteq> ''NaN'')"
| "truthy (Str s) = (s \<noteq> [])"
| "truthy (Ref a) = True"

fun join :: "string \<Rightarrow> string list \<Rightarrow> string" where
  "join sep [] = []"
| "join sep [s] = s"
| "join sep (s # t # ss) = s @ sep @ join sep (t # ss)"

lemma card_unvisited:
  fixes a n :: nat
  assumes "a < n" and "a \<notin> S"
  shows "card ({..<n} - S) - Suc 0 < card ({..<n} - S)"
proof -
  have "finite ({..<n} - S)" by simp
  moreover from assms have "a \<in> {..<n} - S" by simp
  ultimately have "0 < card ({..<n} - S)" by (metis card_gt_0_iff empty_iff)
  then show ?thesis by simp
qed

text \<open>
  \<^verbatim>\<open>ToString\<close>, as the template literal and \<^verbatim>\<open>+\<close> with a string apply it. A plain object
  is \<^verbatim>\<open>[object Object]\<close> unless an own property hides \<^verbatim>\<open>toString\<close>: such a property of
  a parsed document is not callable, and the conversion throws. An array is its elements
  joined by commas, \<^verbatim>\<open>undefined\<close> and \<^verbatim>\<open>null\<close> as the empty string; the second argument
  lists the arrays being joined, and one of them met again is the empty string (as V8
  does). An own property \<^verbatim>\<open>join\<close> of an array, not callable either, leaves
  \<^verbatim>\<open>[object Array]\<close>.
\<close>

function to_string :: "heap \<Rightarrow> addr list \<Rightarrow> val \<Rightarrow> error + string"
  and to_strings :: "heap \<Rightarrow> addr list \<Rightarrow> val list \<Rightarrow> error + string list"
where
  "to_string h stk Undefined = Inr ''undefined''"
| "to_string h stk Null = Inr ''null''"
| "to_string h stk (Bool b) = Inr (if b then ''true'' else ''false'')"
| "to_string h stk (Num n) = Inr n"
| "to_string h stk (Str s) = Inr s"
| "to_string h stk (Ref a) =
     (case cell h a of
        None \<Rightarrow> Inl Dangling
      | Some (Obj fs) \<Rightarrow>
          (if ''toString'' \<in> fst ` set fs then Inl TypeError else Inr ''[object Object]'')
      | Some (Arr vs ps) \<Rightarrow>
          (if ''toString'' \<in> fst ` set ps then Inl TypeError
           else if ''join'' \<in> fst ` set ps then Inr ''[object Array]''
           else if a \<in> set stk then Inr []
           else bindE (to_strings h (a # stk) vs) (\<lambda>ss. Inr (join '','' ss))))"
| "to_strings h stk [] = Inr []"
| "to_strings h stk (v # vs) =
     bindE (if v = Undefined \<or> v = Null then Inr [] else to_string h stk v)
       (\<lambda>s. bindE (to_strings h stk vs) (\<lambda>ss. Inr (s # ss)))"
  by pat_completeness auto
termination
  by (relation "inv_image (less_than <*lex*> less_than)
        (\<lambda>x. case x of
           Inl (h, stk, v) \<Rightarrow> (card ({..<length h} - set stk), 0)
         | Inr (h, stk, vs) \<Rightarrow> (card ({..<length h} - set stk), Suc (length vs)))")
     (auto simp: cell_def card_unvisited split: if_splits)


text \<open>\<^verbatim>\<open>s + v\<close> for a string \<open>s\<close>: the text of \<open>v\<close> is appended.\<close>

definition plus_str :: "heap \<Rightarrow> string \<Rightarrow> val \<Rightarrow> error + string" where
  "plus_str h s v = bindE (to_string h [] v) (\<lambda>t. Inr (s @ t))"

fun starts_with :: "string \<Rightarrow> string \<Rightarrow> bool" where
  "starts_with s [] = True"
| "starts_with [] (c # p) = False"
| "starts_with (d # s) (c # p) = (d = c \<and> starts_with s p)"

fun str_includes :: "string \<Rightarrow> string \<Rightarrow> bool" where
  "str_includes [] t = (t = [])"
| "str_includes (c # s) t = (starts_with (c # s) t \<or> str_includes s t)"

text \<open>
  \<^verbatim>\<open>v.includes(x)\<close>. An array compares its elements with \<open>x\<close> by \<^verbatim>\<open>SameValueZero\<close>,
  which is equality of the values of this model; a string searches for the text of
  \<open>x\<close>; anything else has no such method, and the call throws.
\<close>

fun js_includes :: "heap \<Rightarrow> val \<Rightarrow> val \<Rightarrow> error + bool" where
  "js_includes h Undefined x = Inl TypeError"
| "js_includes h Null x = Inl TypeError"
| "js_includes h (Bool b) x = Inl TypeError"
| "js_includes h (Num n) x = Inl TypeError"
| "js_includes h (Str s) x = bindE (to_string h [] x) (\<lambda>t. Inr (str_includes s t))"
| "js_includes h (Ref a) x =
     (case cell h a of
        None \<Rightarrow> Inl Dangling
      | Some (Obj fs) \<Rightarrow> Inl TypeError
      | Some (Arr vs ps) \<Rightarrow>
          (if ''includes'' \<in> fst ` set ps then Inl TypeError else Inr (x \<in> set vs)))"

subsection \<open>Object literals\<close>

text \<open>
  An object literal of the source, with the values already computed at its leaves.
  Building it allocates its objects, the inner ones first.
\<close>

datatype lit =
    LVal val
  | LStr string
  | LArr "lit list"
  | LObj "(string \<times> lit) list"

fun build :: "lit \<Rightarrow> heap \<Rightarrow> val \<times> heap"
  and build_elems :: "lit list \<Rightarrow> heap \<Rightarrow> val list \<times> heap"
  and build_members :: "(string \<times> lit) list \<Rightarrow> (string \<times> val) list \<Rightarrow> heap
                         \<Rightarrow> (string \<times> val) list \<times> heap"
where
  "build (LVal v) h = (v, h)"
| "build (LStr s) h = (Str s, h)"
| "build (LArr ls) h = (case build_elems ls h of (vs, h') \<Rightarrow> alloc h' (Arr vs []))"
| "build (LObj ms) h = (case build_members ms [] h of (fs, h') \<Rightarrow> alloc h' (Obj fs))"
| "build_elems [] h = ([], h)"
| "build_elems (l # ls) h =
     (case build l h of (v, h1) \<Rightarrow>
      case build_elems ls h1 of (vs, h2) \<Rightarrow> (v # vs, h2))"
| "build_members [] acc h = (acc, h)"
| "build_members ((k, l) # ms) acc h =
     (case build l h of (v, h1) \<Rightarrow> build_members ms (AList.update k v acc) h1)"

subsection \<open>JSON documents\<close>

datatype json =
    JNull
  | JBool bool
  | JNum string
  | JStr string
  | JArr "json list"
  | JObj "(string \<times> json) list"

text \<open>
  The object graph a JSON parser builds for a document (\<^verbatim>\<open>bodyParser.json()\<close> does it
  for the request body): a repeated member name keeps its first place and its last value.
\<close>

fun lit_of :: "json \<Rightarrow> lit" where
  "lit_of JNull = LVal Null"
| "lit_of (JBool b) = LVal (Bool b)"
| "lit_of (JNum n) = LVal (Num n)"
| "lit_of (JStr s) = LStr s"
| "lit_of (JArr js) = LArr (map lit_of js)"
| "lit_of (JObj ms) = LObj (map (\<lambda>(k, j). (k, lit_of j)) ms)"

definition load :: "json \<Rightarrow> heap \<Rightarrow> val \<times> heap" where
  "load j h = build (lit_of j) h"

text \<open>
  The order in which JavaScript enumerates the own properties of an object: the names that
  are array indices (decimal numerals below \<open>2\<^sup>3\<^sup>2 - 1\<close> with no leading zero) first, in
  numeric order, then the other names in the order of their insertion.
\<close>

definition is_digit :: "char \<Rightarrow> bool" where
  "is_digit c = (c \<in> set ''0123456789'')"

definition digit_value :: "char \<Rightarrow> int" where
  "digit_value c = int (length (takeWhile (\<lambda>d. d \<noteq> c) ''0123456789''))"

definition numeral_value :: "string \<Rightarrow> int" where
  "numeral_value s = foldl (\<lambda>n c. 10 * n + digit_value c) 0 s"

definition array_index :: "string \<Rightarrow> int option" where
  "array_index s =
     (if s \<noteq> [] \<and> list_all is_digit s \<and> (s = ''0'' \<or> hd s \<noteq> CHR ''0'')
         \<and> numeral_value s < 4294967295
      then Some (numeral_value s) else None)"

definition ordered :: "(string \<times> val) list \<Rightarrow> (string \<times> val) list" where
  "ordered fs =
     sort_key (\<lambda>(k, v). numeral_value k) (filter (\<lambda>(k, v). array_index k \<noteq> None) fs)
     @ filter (\<lambda>(k, v). array_index k = None) fs"

text \<open>
  \<^verbatim>\<open>JSON.stringify\<close>, up to the layout of the text: the document that the text
  \<^verbatim>\<open>JSON.stringify(v, null, 2)\<close> denotes, or \<open>None\<close> where it returns \<^verbatim>\<open>undefined\<close>.
  The members of an object come in the order of enumeration. A member whose value is
  \<^verbatim>\<open>undefined\<close> is left out, an element that is \<^verbatim>\<open>undefined\<close> is \<^verbatim>\<open>null\<close>, and so is a
  number that is not finite. The second argument lists the objects being serialised: one
  of them met again is a circular structure, a \<^verbatim>\<open>TypeError\<close>.
\<close>

function stringify :: "heap \<Rightarrow> addr list \<Rightarrow> val \<Rightarrow> error + json option"
  and stringify_members :: "heap \<Rightarrow> addr list \<Rightarrow> (string \<times> val) list
                             \<Rightarrow> error + (string \<times> json) list"
  and stringify_elems :: "heap \<Rightarrow> addr list \<Rightarrow> val list \<Rightarrow> error + json list"
where
  "stringify h stk Undefined = Inr None"
| "stringify h stk Null = Inr (Some JNull)"
| "stringify h stk (Bool b) = Inr (Some (JBool b))"
| "stringify h stk (Num n) =
     Inr (Some (if n \<in> set [''NaN'', ''Infinity'', ''-Infinity''] then JNull else JNum n))"
| "stringify h stk (Str s) = Inr (Some (JStr s))"
| "stringify h stk (Ref a) =
     (if a \<in> set stk then Inl TypeError
      else case cell h a of
        None \<Rightarrow> Inl Dangling
      | Some (Obj fs) \<Rightarrow>
          bindE (stringify_members h (a # stk) (ordered fs))
            (\<lambda>ms. Inr (Some (JObj ms)))
      | Some (Arr vs ps) \<Rightarrow>
          bindE (stringify_elems h (a # stk) vs) (\<lambda>js. Inr (Some (JArr js))))"
| "stringify_members h stk [] = Inr []"
| "stringify_members h stk ((k, v) # fs) =
     bindE (stringify h stk v)
       (\<lambda>r. bindE (stringify_members h stk fs)
          (\<lambda>ms. Inr (case r of None \<Rightarrow> ms | Some j \<Rightarrow> (k, j) # ms)))"
| "stringify_elems h stk [] = Inr []"
| "stringify_elems h stk (v # vs) =
     bindE (stringify h stk v)
       (\<lambda>r. bindE (stringify_elems h stk vs)
          (\<lambda>js. Inr ((case r of None \<Rightarrow> JNull | Some j \<Rightarrow> j) # js)))"
  by pat_completeness auto
termination
  by (relation "inv_image (less_than <*lex*> less_than)
        (\<lambda>x. case x of
           Inl (h, stk, v) \<Rightarrow> (card ({..<length h} - set stk), 0)
         | Inr (Inl (h, stk, fs)) \<Rightarrow> (card ({..<length h} - set stk), Suc (length fs))
         | Inr (Inr (h, stk, vs)) \<Rightarrow> (card ({..<length h} - set stk), Suc (length vs)))")
     (auto simp: cell_def card_unvisited split: if_splits)


section \<open>Requests, responses and middleware\<close>

text \<open>
  What the files use of an Express request: the method, the path the router matches,
  \<^verbatim>\<open>request.get('Host')\<close>, \<^verbatim>\<open>request.get('Authorization')\<close> (\<open>None\<close> for
  \<^verbatim>\<open>undefined\<close>) and the body as \<^verbatim>\<open>bodyParser.json()\<close> left it in the store.
\<close>

record request =
  "method" :: string
  path :: string
  get_Host :: "string option"
  get_Authorization :: "string option"
  body :: val

text \<open>
  What they do to a response: the status code, the headers, the body handed to
  \<^verbatim>\<open>send\<close>, and whether the response has been ended. Express sets the status code to
  200 at first, and a response goes to the client only once it is ended.
\<close>

record response =
  statusCode :: nat
  headers :: "(string \<times> string) list"
  payload :: "json option"
  ended :: bool

definition new_response :: response where
  "new_response = \<lparr>statusCode = 200, headers = [], payload = None, ended = False\<rparr>"

text \<open>\<^verbatim>\<open>response.setHeader(n, v)\<close> and \<^verbatim>\<open>response.set(n, v)\<close>.\<close>

definition setHeader :: "string \<Rightarrow> string \<Rightarrow> response \<Rightarrow> response" where
  "setHeader n v r = r\<lparr>headers := AList.update n v (headers r)\<rparr>"

text \<open>\<^verbatim>\<open>response.status(c)\<close> stores the code and returns the response; it sends nothing.\<close>

definition status :: "nat \<Rightarrow> response \<Rightarrow> response" where
  "status c r = r\<lparr>statusCode := c\<rparr>"

text \<open>\<^verbatim>\<open>response.end()\<close> ends the response with no body.\<close>

definition end_response :: "response \<Rightarrow> response" where
  "end_response r = r\<lparr>ended := True\<rparr>"

text \<open>
  \<^verbatim>\<open>response.send(text)\<close> writes the body and ends the response. The body is kept as
  the document its text denotes. The headers Express derives from the body
  (\<^verbatim>\<open>Content-Type\<close>, \<^verbatim>\<open>Content-Length\<close>, \<^verbatim>\<open>ETag\<close>) are left out.
\<close>

definition send :: "json option \<Rightarrow> response \<Rightarrow> response" where
  "send j r = r\<lparr>payload := j, ended := True\<rparr>"

text \<open>A middleware either calls \<^verbatim>\<open>next()\<close> or returns without it.\<close>

datatype flow = Next | Halt

text \<open>The first middleware of both files after the body parser (lines 12 to 22).\<close>

definition cors :: "request \<Rightarrow> response \<Rightarrow> flow \<times> response" where
  "cors request response =
     (Next,
      setHeader ''Access-Control-Expose-Headers''
        (''Origin, Accept, Content-Location, '' @ ''Location, X-Requested-With'')
      (setHeader ''Access-Control-Allow-Headers'' ''Content-Type, Authorization''
      (setHeader ''Access-Control-Allow-Credentials'' ''true''
      (setHeader ''Access-Control-Allow-Methods'' ''GET, POST, OPTIONS''
      (setHeader ''Access-Control-Allow-Origin'' ''*'' response)))))"

text \<open>
  The authorization middleware of \<^verbatim>\<open>src/index.js\<close> (lines 28 to 55). The constant
  \<^verbatim>\<open>authorizationHeader\<close> is \<^verbatim>\<open>request.get('Authorization') || 'Bearer open'\<close>: the
  default stands in for every falsy value, \<^verbatim>\<open>undefined\<close> and the empty string.
\<close>

definition authorizationHeader :: "request \<Rightarrow> string" where
  "authorizationHeader request =
     (case get_Authorization request of
        None \<Rightarrow> ''Bearer open''
      | Some s \<Rightarrow> if s = [] then ''Bearer open'' else s)"

definition dq :: char where
  "dq = CHR 0x22"

text \<open>
  The template literal of the challenge: \<^verbatim>\<open>${serviceHost}\<close> is the text of the host,
  \<^verbatim>\<open>undefined\<close> when the request has none.
\<close>

definition challenge :: "string option \<Rightarrow> string \<Rightarrow> string" where
  "challenge serviceHost description =
     ''Bearer realm='' @ [dq] @ (case serviceHost of None \<Rightarrow> ''undefined'' | Some s \<Rightarrow> s)
       @ [dq] @ '', error='' @ [dq] @ ''invalid_token'' @ [dq]
       @ '', error_description='' @ [dq] @ description @ [dq]"

text \<open>
  The constants \<^verbatim>\<open>token\<close> and \<^verbatim>\<open>aud\<close> of the source are computed and never used;
  \<^verbatim>\<open>isValid\<close> is the constant \<^verbatim>\<open>true\<close>.
\<close>

definition authorization :: "request \<Rightarrow> response \<Rightarrow> flow \<times> response" where
  "authorization request response =
     (if method request = ''OPTIONS'' then (Next, response)
      else
        let serviceHost = get_Host request;
            authorizationHeader = authorizationHeader request
        in if authorizationHeader = [] \<or> \<not> starts_with authorizationHeader ''Bearer''
           then (Halt, end_response (status 401
                   (setHeader ''WWW-Authenticate''
                      (challenge serviceHost ''No Bearer token provided.'') response)))
           else
             let isValid = True
             in if \<not> isValid
                then (Halt, end_response (status 401
                        (setHeader ''WWW-Authenticate''
                           (challenge serviceHost ''Token error description.'') response)))
                else (Next, response))"

section \<open>The handlers\<close>

text \<open>
  A handler ends in one of three ways: it returns, leaving the response and the store as
  they are then; it throws; or no route of the file matches the request, and the
  framework answers.
\<close>

datatype outcome =
    Handled response heap
  | Threw error
  | NoRoute response

definition finish :: "error + response \<times> heap \<Rightarrow> outcome" where
  "finish r = (case r of Inl e \<Rightarrow> Threw e | Inr (response, h) \<Rightarrow> Handled response h)"

subsection \<open>Discovery\<close>

text \<open>\<^verbatim>\<open>app.get('/cds-services', ...)\<close> of \<^verbatim>\<open>src/index.js\<close> (lines 63 to 90).\<close>

definition patientViewExample :: lit where
  "patientViewExample = LObj
     [(''hook'', LStr ''patient-view''),
      (''id'', LStr ''patient-view-example''),
      (''title'', LStr ''Example patient-view CDS Service''),
      (''description'', LStr ''Displays the name and gender of the patient''),
      (''prefetch'', LObj [(''requestedPatient'', LStr ''Patient/{{context.patientId}}'')])]"

definition orderSelectExample :: lit where
  "orderSelectExample = LObj
     [(''hook'', LStr ''order-select''),
      (''id'', LStr ''order-select-example''),
      (''title'', LStr ''Example order-select CDS Service''),
      (''description'', LStr ''Suggests prescribing Aspirin 81 MG Oral Tablets'')]"

definition cds_services :: "heap \<Rightarrow> request \<Rightarrow> response \<Rightarrow> outcome" where
  "cds_services h request response = finish
     (case build (LObj [(''services'', LArr [patientViewExample, orderSelectExample])]) h of
        (discoveryEndpointServices, h') \<Rightarrow>
          bindE (stringify h' [] discoveryEndpointServices)
            (\<lambda>text. Inr (send text response, h')))"

text \<open>The same route of \<^verbatim>\<open>src/unnamed/part_000\<close> (lines 30 to 57).\<close>

definition patientViewExample_part_000 :: lit where
  "patientViewExample_part_000 = LObj
     [(''hook'', LStr ''patient-view''),
      (''id'', LStr ''patient-view-example''),
      (''title'', LStr ''Example patient-view CDS Service''),
      (''description'', LStr ''Displays the name and gender of the patient''),
      (''prefetch'', LObj [(''requestedPatient'', LStr ''Patient/{{Patient.id}}'')])]"

definition medicationPrescribeExample :: lit where
  "medicationPrescribeExample = LObj
     [(''hook'', LStr ''medication-prescribe''),
      (''id'', LStr ''medication-prescribe-example''),
      (''title'', LStr ''Example medication-prescribe CDS Service''),
      (''description'', LStr ''Suggests prescribing Aspirin 81 MG Oral Tablets'')]"

definition cds_services_part_000 :: "heap \<Rightarrow> request \<Rightarrow> response \<Rightarrow> outcome" where
  "cds_services_part_000 h request response = finish
     (case build (LObj [(''services'',
               LArr [patientViewExample_part_000, medicationPrescribeExample])]) h of
        (discoveryEndpointServices, h') \<Rightarrow>
          bindE (stringify h' [] discoveryEndpointServices)
            (\<lambda>text. Inr (send text response, h')))"

subsection \<open>The patient-view service\<close>

text \<open>
  \<^verbatim>\<open>app.post('/cds-services/patient-view-example', ...)\<close> of \<^verbatim>\<open>src/index.js\<close>
  (lines 99 to 124). The summary is evaluated from the left: the given name is read and
  appended before the family name is read.
\<close>

definition summary_of :: "heap \<Rightarrow> val \<Rightarrow> error + string" where
  "summary_of h patientResource =
     bindE (get_path h patientResource [Prop ''name'', Idx 0, Prop ''given'', Idx 0])
       (\<lambda>given. bindE (plus_str h ''Now seeing: '' given)
       (\<lambda>s. bindE (get_path h patientResource [Prop ''name'', Idx 0, Prop ''family'', Idx 0])
       (\<lambda>family. plus_str h (s @ '' '') family)))"

definition patient_view_example :: "heap \<Rightarrow> request \<Rightarrow> response \<Rightarrow> outcome" where
  "patient_view_example h request response = finish
     (bindE (get_path h (body request)
               [Prop ''prefetch'', Prop ''requestedPatient'', Prop ''resource''])
        (\<lambda>patientResource. bindE (summary_of h patientResource)
        (\<lambda>summary.
           case build (LObj [(''cards'', LArr [LObj
                  [(''summary'', LStr summary),
                   (''indicator'', LStr ''info''),
                   (''source'', LObj
                      [(''label'', LStr ''CDS Service Tutorial''),
                       (''url'', LStr ''https://github.com/cerner/cds-services-tutorial/wiki/Patient-View-Service'')]),
                   (''links'', LArr [LObj
                      [(''label'', LStr ''Learn more about CDS Hooks''),
                       (''url'', LStr ''http://cds-hooks.org''),
                       (''type'', LStr ''absolute'')]])]])]) h of
             (patientViewCard, h') \<Rightarrow>
               bindE (stringify h' [] patientViewCard)
                 (\<lambda>text. Inr (send text response, h')))))"

text \<open>The same route of \<^verbatim>\<open>src/unnamed/part_000\<close> (lines 66 to 87): the card has no source.\<close>

definition patient_view_example_part_000 :: "heap \<Rightarrow> request \<Rightarrow> response \<Rightarrow> outcome" where
  "patient_view_example_part_000 h request response = finish
     (bindE (get_path h (body request)
               [Prop ''prefetch'', Prop ''requestedPatient'', Prop ''resource''])
        (\<lambda>patientResource. bindE (summary_of h patientResource)
        (\<lambda>summary.
           case build (LObj [(''cards'', LArr [LObj
                  [(''summary'', LStr summary),
                   (''indicator'', LStr ''info''),
                   (''links'', LArr [LObj
                      [(''label'', LStr ''Learn more about CDS Hooks''),
                       (''url'', LStr ''http://cds-hooks.org''),
                       (''type'', LStr ''absolute'')]])]])]) h of
             (patientViewCard, h') \<Rightarrow>
               bindE (stringify h' [] patientViewCard)
                 (\<lambda>text. Inr (send text response, h')))))"


subsection \<open>The medication services\<close>

text \<open>
  \<^verbatim>\<open>createMedicationResponseCard\<close> of \<^verbatim>\<open>src/index.js\<close> (lines 155 to 216). It returns
  the response object and the store it leaves. In the second branch
  \<^verbatim>\<open>newMedicationRequest\<close> is bound to the value of \<^verbatim>\<open>context\<close>, the same reference, and
  the assignment goes to the object both names refer to.
\<close>

definition aspirin :: lit where
  "aspirin = LObj
     [(''text'', LStr ''Aspirin 81 MG Oral Tablet''),
      (''coding'', LArr [LObj
         [(''display'', LStr ''Aspirin 81 MG Oral Tablet''),
          (''system'', LStr ''http://www.nlm.nih.gov/research/umls/rxnorm''),
          (''code'', LStr ''243670'')]])]"

definition createMedicationResponseCard :: "heap \<Rightarrow> val \<Rightarrow> error + val \<times> heap" where
  "createMedicationResponseCard h context =
     bindE (get_path h context
              [Prop ''medicationCodeableConcept'', Prop ''coding'', Idx 0, Prop ''code''])
       (\<lambda>providerOrderedMedication.
          if providerOrderedMedication = Str ''243670'' then
            Inr (build (LObj [(''cards'', LArr [LObj
                   [(''summary'', LStr ''Currently prescribing a low-dose Aspirin''),
                    (''indicator'', LStr ''info''),
                    (''source'', LObj
                       [(''label'', LStr ''CDS Service Tutorial''),
                        (''url'', LStr ''https://github.com/cerner/cds-services-tutorial/wiki/Order-Select-Service'')])]])]) h)
          else
            let newMedicationRequest = context
            in case build aspirin h of
                 (concept, h1) \<Rightarrow>
                   bindE (set_prop h1 newMedicationRequest ''medicationCodeableConcept'' concept)
                     (\<lambda>h2. Inr (build (LObj [(''cards'', LArr [LObj
                        [(''summary'', LStr ''Reduce cardiovascular risks, prescribe daily 81 MG Aspirin''),
                         (''indicator'', LStr ''warning''),
                         (''suggestions'', LArr [LObj
                            [(''label'', LStr ''Switch to low-dose Aspirin''),
                             (''actions'', LArr [LObj
                                [(''type'', LStr ''create''),
                                 (''description'', LStr ''Modifying existing medication order to be Aspirin''),
                                 (''resource'', LVal newMedicationRequest)]])]]),
                         (''source'', LObj
                            [(''label'', LStr ''CDS Service Tutorial''),
                             (''url'', LStr ''https://github.com/cerner/cds-services-tutorial/wiki/Order-Select-Service'')])]])]) h2)))"

text \<open>
  The function of the same name in \<^verbatim>\<open>src/unnamed/part_000\<close> (lines 116 to 171): the
  information card has no source, the action no description, and the source of the
  warning card differs.
\<close>

definition createMedicationResponseCard_part_000 :: "heap \<Rightarrow> val \<Rightarrow> error + val \<times> heap" where
  "createMedicationResponseCard_part_000 h context =
     bindE (get_path h context
              [Prop ''medicationCodeableConcept'', Prop ''coding'', Idx 0, Prop ''code''])
       (\<lambda>providerOrderedMedication.
          if providerOrderedMedication = Str ''243670'' then
            Inr (build (LObj [(''cards'', LArr [LObj
                   [(''summary'', LStr ''Currently prescribing a low-dose Aspirin''),
                    (''indicator'', LStr ''info'')]])]) h)
          else
            let newMedicationOrder = context
            in case build aspirin h of
                 (concept, h1) \<Rightarrow>
                   bindE (set_prop h1 newMedicationOrder ''medicationCodeableConcept'' concept)
                     (\<lambda>h2. Inr (build (LObj [(''cards'', LArr [LObj
                        [(''summary'', LStr ''Reduce cardiovascular risks, prescribe daily 81 MG Aspirin''),
                         (''indicator'', LStr ''warning''),
                         (''suggestions'', LArr [LObj
                            [(''label'', LStr ''Switch to low-dose Aspirin''),
                             (''actions'', LArr [LObj
                                [(''type'', LStr ''create''),
                                 (''resource'', LVal newMedicationOrder)]])]]),
                         (''source'', LObj
                            [(''label'', LStr ''Learn more about Suggestions''),
                             (''url'', LStr ''http://cds-hooks.org/#cds-service-response'')])]])]) h2)))"

text \<open>
  The condition of \<^verbatim>\<open>src/index.js\<close>, line 142, with the short circuit of \<^verbatim>\<open>&&\<close>: the
  selections are searched only for a draft order of one of the two resource types, and
  the medication is read only when the reference is among them.
\<close>

definition medication_chosen :: "heap \<Rightarrow> val \<Rightarrow> val \<Rightarrow> error + bool" where
  "medication_chosen h draftOrder selections =
     bindE (get h draftOrder (Prop ''resourceType''))
       (\<lambda>resourceType.
          if resourceType \<notin> set [Str ''MedicationRequest'', Str ''MedicationOrder'']
          then Inr False
          else
            bindE (to_string h [] resourceType)
              (\<lambda>t. bindE (get h draftOrder (Prop ''id''))
              (\<lambda>id. bindE (plus_str h (t @ ''/'') id)
              (\<lambda>reference. bindE (js_includes h selections (Str reference))
              (\<lambda>selected.
                 if \<not> selected then Inr False
                 else bindE (get h draftOrder (Prop ''medicationCodeableConcept''))
                        (\<lambda>concept. Inr (truthy concept)))))))"

text \<open>
  \<^verbatim>\<open>app.post('/cds-services/order-select-example', ...)\<close> of \<^verbatim>\<open>src/index.js\<close> (lines 135
  to 148). The last statement, \<^verbatim>\<open>response.status(200)\<close>, runs on both paths.
\<close>

definition order_select_example :: "heap \<Rightarrow> request \<Rightarrow> response \<Rightarrow> outcome" where
  "order_select_example h request response = finish
     (bindE (get_path h (body request)
               [Prop ''context'', Prop ''draftOrders'', Prop ''entry'', Idx 0, Prop ''resource''])
        (\<lambda>draftOrder. bindE (get_path h (body request) [Prop ''context'', Prop ''selections''])
        (\<lambda>selections. bindE (medication_chosen h draftOrder selections)
        (\<lambda>chosen.
           if chosen then
             bindE (createMedicationResponseCard h draftOrder)
               (\<lambda>(responseCard, h'). bindE (stringify h' [] responseCard)
               (\<lambda>text. Inr (status 200 (send text response), h')))
           else Inr (status 200 response, h)))))"

text \<open>
  \<^verbatim>\<open>app.post('/cds-services/medication-prescribe-example', ...)\<close> of
  \<^verbatim>\<open>src/unnamed/part_000\<close> (lines 98 to 109).
\<close>

definition medication_prescribe_example :: "heap \<Rightarrow> request \<Rightarrow> response \<Rightarrow> outcome" where
  "medication_prescribe_example h request response = finish
     (bindE (get_path h (body request) [Prop ''context'', Idx 0])
        (\<lambda>context. bindE (get h context (Prop ''medicationCodeableConcept''))
        (\<lambda>concept.
           if truthy concept then
             bindE (createMedicationResponseCard_part_000 h context)
               (\<lambda>(responseCard, h'). bindE (stringify h' [] responseCard)
               (\<lambda>text. Inr (status 200 (send text response), h')))
           else Inr (status 200 response, h))))"

section \<open>The applications\<close>

text \<open>
  The middleware in the order of the \<^verbatim>\<open>app.use\<close> calls, then the routes. The router's
  looser matches (letter case, a trailing slash, \<^verbatim>\<open>HEAD\<close> for a \<^verbatim>\<open>get\<close> route) are
  not modelled: such a request is \<open>NoRoute\<close> here.
\<close>

definition routes :: "heap \<Rightarrow> request \<Rightarrow> response \<Rightarrow> outcome" where
  "routes h request response =
     (if method request = ''GET'' \<and> path request = ''/cds-services''
      then cds_services h request response
      else if method request = ''POST'' \<and> path request = ''/cds-services/patient-view-example''
      then patient_view_example h request response
      else if method request = ''POST'' \<and> path request = ''/cds-services/order-select-example''
      then order_select_example h request response
      else NoRoute response)"

definition app :: "heap \<Rightarrow> request \<Rightarrow> outcome" where
  "app h request =
     (case cors request new_response of
        (Halt, r) \<Rightarrow> Handled r h
      | (Next, r) \<Rightarrow>
          (case authorization request r of
             (Halt, r') \<Rightarrow> Handled r' h
           | (Next, r') \<Rightarrow> routes h request r'))"

text \<open>\<^verbatim>\<open>src/unnamed/part_000\<close>: the same, with no authorization middleware.\<close>

definition routes_part_000 :: "heap \<Rightarrow> request \<Rightarrow> response \<Rightarrow> outcome" where
  "routes_part_000 h request response =
     (if method request = ''GET'' \<and> path request = ''/cds-services''
      then cds_services_part_000 h request response
      else if method request = ''POST'' \<and> path request = ''/cds-services/patient-view-example''
      then patient_view_example_part_000 h request response
      else if method request = ''POST''
              \<and> path request = ''/cds-services/medication-prescribe-example''
      then medication_prescribe_example h request response
      else NoRoute response)"

definition app_part_000 :: "heap \<Rightarrow> request \<Rightarrow> outcome" where
  "app_part_000 h request =
     (case cors request new_response of
        (Halt, r) \<Rightarrow> Handled r h
      | (Next, r) \<Rightarrow> routes_part_000 h request r)"


section \<open>Expected answers\<close>

text \<open>What a handler that returned left of the response, and the body it sent.\<close>

fun response_of :: "outcome \<Rightarrow> response option" where
  "response_of (Handled r h) = Some r"
| "response_of (Threw e) = None"
| "response_of (NoRoute r) = None"

definition sent :: "outcome \<Rightarrow> json option" where
  "sent out = (case response_of out of None \<Rightarrow> None | Some r \<Rightarrow> payload r)"

text \<open>The cross-origin headers that the first middleware sets on a new response.\<close>

definition cors_header_set :: "(string \<times> string) list" where
  "cors_header_set =
     [(''Access-Control-Allow-Origin'', ''*''),
      (''Access-Control-Allow-Methods'', ''GET, POST, OPTIONS''),
      (''Access-Control-Allow-Credentials'', ''true''),
      (''Access-Control-Allow-Headers'', ''Content-Type, Authorization''),
      (''Access-Control-Expose-Headers'',
         ''Origin, Accept, Content-Location, Location, X-Requested-With'')]"

text \<open>A response with the status 200, these headers and a body, ended.\<close>

definition answer :: "json \<Rightarrow> response" where
  "answer j = \<lparr>statusCode = 200, headers = cors_header_set, payload = Some j, ended = True\<rparr>"

text \<open>The catalogs of the two files, as documents.\<close>

definition catalog :: json where
  "catalog = JObj [(''services'', JArr
     [JObj [(''hook'', JStr ''patient-view''),
            (''id'', JStr ''patient-view-example''),
            (''title'', JStr ''Example patient-view CDS Service''),
            (''description'', JStr ''Displays the name and gender of the patient''),
            (''prefetch'', JObj [(''requestedPatient'', JStr ''Patient/{{context.patientId}}'')])],
      JObj [(''hook'', JStr ''order-select''),
            (''id'', JStr ''order-select-example''),
            (''title'', JStr ''Example order-select CDS Service''),
            (''description'', JStr ''Suggests prescribing Aspirin 81 MG Oral Tablets'')]])]"

definition catalog_part_000 :: json where
  "catalog_part_000 = JObj [(''services'', JArr
     [JObj [(''hook'', JStr ''patient-view''),
            (''id'', JStr ''patient-view-example''),
            (''title'', JStr ''Example patient-view CDS Service''),
            (''description'', JStr ''Displays the name and gender of the patient''),
            (''prefetch'', JObj [(''requestedPatient'', JStr ''Patient/{{Patient.id}}'')])],
      JObj [(''hook'', JStr ''medication-prescribe''),
            (''id'', JStr ''medication-prescribe-example''),
            (''title'', JStr ''Example medication-prescribe CDS Service''),
            (''description'', JStr ''Suggests prescribing Aspirin 81 MG Oral Tablets'')]])]"

text \<open>The elements of the array that the property \<open>p\<close> of \<open>v\<close> refers to.\<close>

definition items :: "heap \<Rightarrow> val \<Rightarrow> string \<Rightarrow> val list option" where
  "items h v p =
     (case get h v (Prop p) of
        Inr (Ref a) \<Rightarrow> (case cell h a of Some (Arr vs ps) \<Rightarrow> Some vs | _ \<Rightarrow> None)
      | _ \<Rightarrow> None)"

section \<open>Example requests\<close>

text \<open>
  A draft order for the medication with the code \<open>c\<close>, with or without its
  \<^verbatim>\<open>medicationCodeableConcept\<close>, and the bodies that carry it to the two medication
  routes: the first entry of \<^verbatim>\<open>context.draftOrders\<close> with its reference among the
  selections for \<^verbatim>\<open>src/index.js\<close>, the first element of \<^verbatim>\<open>context\<close> for
  \<^verbatim>\<open>src/unnamed/part_000\<close>.
\<close>

definition draft_order :: "string \<Rightarrow> json" where
  "draft_order c = JObj
     [(''resourceType'', JStr ''MedicationRequest''),
      (''id'', JStr ''order-123''),
      (''medicationCodeableConcept'', JObj
         [(''text'', JStr ''Acetaminophen 325 MG Oral Tablet''),
          (''coding'', JArr [JObj
             [(''display'', JStr ''Acetaminophen 325 MG Oral Tablet''),
              (''system'', JStr ''http://www.nlm.nih.gov/research/umls/rxnorm''),
              (''code'', JStr c)]])]),
      (''status'', JStr ''draft'')]"

definition draft_order_without_medication :: json where
  "draft_order_without_medication = JObj
     [(''resourceType'', JStr ''MedicationRequest''),
      (''id'', JStr ''order-123''),
      (''status'', JStr ''draft'')]"

definition order_select_body :: "json \<Rightarrow> json" where
  "order_select_body order = JObj
     [(''context'', JObj
         [(''selections'', JArr [JStr ''MedicationRequest/order-123'']),
          (''draftOrders'', JObj [(''entry'', JArr [JObj [(''resource'', order)]])])])]"

definition medication_prescribe_body :: "json \<Rightarrow> json" where
  "medication_prescribe_body order = JObj [(''context'', JArr [order])]"

text \<open>The body of a patient-view request for a patient of the given names.\<close>

definition patient_view_body :: "string \<Rightarrow> string \<Rightarrow> json" where
  "patient_view_body given family = JObj
     [(''prefetch'', JObj
         [(''requestedPatient'', JObj
             [(''resource'', JObj
                 [(''resourceType'', JStr ''Patient''),
                  (''name'', JArr [JObj
                     [(''given'', JArr [JStr given]),
                      (''family'', JArr [JStr family])]])])])])]"

text \<open>
  A parsed document: its value and the store that holds it. A \<^verbatim>\<open>POST\<close> request with
  no \<^verbatim>\<open>Authorization\<close> header that carries a body to a path.
\<close>

definition parsed :: "json \<Rightarrow> val \<times> heap" where
  "parsed j = load j []"

definition post :: "string \<Rightarrow> val \<Rightarrow> request" where
  "post p b = \<lparr>method = ''POST'', path = p, get_Host = Some ''localhost:3000'',
                get_Authorization = None, body = b\<rparr>"

text \<open>The store that a call of the card generator leaves, empty when it throws.\<close>

definition store_after :: "error + val \<times> heap \<Rightarrow> heap" where
  "store_after r = (case r of Inl e \<Rightarrow> [] | Inr (v, h) \<Rightarrow> h)"

section \<open>Evaluation lemmas\<close>

lemma bindE_simps [simp]: "bindE (Inl e) f = Inl e" "bindE (Inr x) f = f x"
  by (simp_all add: bindE_def)

lemma finish_simps [simp]: "finish (Inl e) = Threw e" "finish (Inr (r, h)) = Handled r h"
  by (simp_all add: finish_def)

lemma cell_append_new [simp]: "length h \<le> a \<Longrightarrow> cell (h @ xs) a = cell xs (a - length h)"
  by (auto simp: cell_def nth_append)

lemma cell_append_old [simp]: "a < length h \<Longrightarrow> cell (h @ xs) a = Some (h ! a)"
  by (simp add: cell_def nth_append)

lemma cell_Cons [simp]:
  "cell (x # xs) 0 = Some x"
  "cell (x # xs) (Suc n) = cell xs n"
  "cell (x # xs) 1 = cell xs 0"
  "cell (x # xs) (numeral k) = cell xs (pred_numeral k)"
  "cell [] n = None"
  by (simp_all add: cell_def nth_Cons_numeral)

lemma array_index_name [simp]: "\<not> is_digit c \<Longrightarrow> array_index (c # s) = None"
  by (simp add: array_index_def)

lemma is_digit_iff [simp]: "is_digit c \<longleftrightarrow> c \<in> set ''0123456789''"
  by (simp add: is_digit_def)

lemma ordered_names [simp]:
  assumes "list_all (\<lambda>(k, v). array_index k = None) fs"
  shows "ordered fs = fs"
proof -
  from assms have "filter (\<lambda>(k, v). array_index k \<noteq> None) fs = []"
    by (auto simp: filter_empty_conv list_all_iff)
  moreover from assms have "filter (\<lambda>(k, v). array_index k = None) fs = fs"
    by (auto simp: filter_id_conv list_all_iff)
  ultimately show ?thesis
    by (simp add: ordered_def)
qed

lemma own_update [simp]: "own (AList.update k v fs) k = v"
  by (simp add: own_def update_conv')

lemma dec_0 [simp]: "dec 0 = ''0''"
  by (simp add: dec.simps digit_def)

lemma context_is_reference:
  assumes "get_path h v (Prop p # k # ks) = Inr w"
  shows "\<exists>a. v = Ref a \<and> a < length h"
  using assms by (cases v) (auto simp: cell_def split: if_splits)

lemma cors_new_response:
  "cors request new_response =
     (Next, \<lparr>statusCode = 200, headers = cors_header_set, payload = None, ended = False\<rparr>)"
  by (simp add: cors_def new_response_def setHeader_def cors_header_set_def)

lemma gate_passes:
  "method request = ''OPTIONS'' \<or> starts_with (authorizationHeader request) ''Bearer''
   \<Longrightarrow> authorization request response = (Next, response)"
  by (auto simp: authorization_def Let_def)

section \<open>The authorization gate\<close>

text \<open>
  C5. A request with the method \<^verbatim>\<open>OPTIONS\<close> passes the authorization middleware of
  \<^verbatim>\<open>src/index.js\<close> with the response untouched, whatever its \<^verbatim>\<open>Authorization\<close> header
  is: no 401 is produced. The middleware before it has set the five cross-origin
  headers on the response, and the application hands the request on with them and with
  the status 200.
\<close>

theorem options_pass_the_gate:
  assumes "method request = ''OPTIONS''"
  shows "authorization request response = (Next, response)
       \<and> fst (cors request response) = Next
       \<and> map_of (headers (snd (cors request response))) ''Access-Control-Allow-Origin''
           = Some ''*''
       \<and> map_of (headers (snd (cors request response))) ''Access-Control-Allow-Methods''
           = Some ''GET, POST, OPTIONS''
       \<and> map_of (headers (snd (cors request response))) ''Access-Control-Allow-Credentials''
           = Some ''true''
       \<and> map_of (headers (snd (cors request response))) ''Access-Control-Allow-Headers''
           = Some ''Content-Type, Authorization''
       \<and> map_of (headers (snd (cors request response))) ''Access-Control-Expose-Headers''
           = Some ''Origin, Accept, Content-Location, Location, X-Requested-With''
       \<and> app h request = NoRoute (snd (cors request new_response))
       \<and> statusCode (snd (cors request new_response)) = 200"
  using assms
  by (simp add: authorization_def cors_def setHeader_def update_conv' app_def routes_def
        new_response_def)

theorem options_pass_the_gate_witness:
  "method \<lparr>method = ''OPTIONS'', path = ''/cds-services'', get_Host = Some ''localhost:3000'',
            get_Authorization = Some ''Basic dXNlcg=='', body = Undefined\<rparr> = ''OPTIONS''
   \<and> authorization \<lparr>method = ''OPTIONS'', path = ''/cds-services'',
          get_Host = Some ''localhost:3000'', get_Authorization = Some ''Basic dXNlcg=='',
          body = Undefined\<rparr> new_response = (Next, new_response)
   \<and> app [] \<lparr>method = ''OPTIONS'', path = ''/cds-services'', get_Host = Some ''localhost:3000'',
          get_Authorization = Some ''Basic dXNlcg=='', body = Undefined\<rparr>
       = NoRoute \<lparr>statusCode = 200,
           headers = [(''Access-Control-Allow-Origin'', ''*''),
             (''Access-Control-Allow-Methods'', ''GET, POST, OPTIONS''),
             (''Access-Control-Allow-Credentials'', ''true''),
             (''Access-Control-Allow-Headers'', ''Content-Type, Authorization''),
             (''Access-Control-Expose-Headers'',
                ''Origin, Accept, Content-Location, Location, X-Requested-With'')],
           payload = None, ended = False\<rparr>"
  using options_pass_the_gate
    [of "\<lparr>method = ''OPTIONS'', path = ''/cds-services'', get_Host = Some ''localhost:3000'',
           get_Authorization = Some ''Basic dXNlcg=='', body = Undefined\<rparr>" new_response "[]"]
  by (simp add: cors_def setHeader_def new_response_def)

text \<open>
  C6. A request with another method and no \<^verbatim>\<open>Authorization\<close> header gets the
  placeholder credential \<^verbatim>\<open>Bearer open\<close> and passes the middleware with the response
  untouched: the application goes on to its routes.
\<close>

theorem missing_header_defaults:
  assumes "method request \<noteq> ''OPTIONS''" and "get_Authorization request = None"
  shows "authorizationHeader request = ''Bearer open''
       \<and> authorization request response = (Next, response)
       \<and> app h request = routes h request (snd (cors request new_response))"
  using assms
  by (simp add: authorization_def authorizationHeader_def app_def cors_def)

theorem missing_header_defaults_witness:
  "method \<lparr>method = ''POST'', path = ''/cds-services/patient-view-example'',
            get_Host = Some ''localhost:3000'', get_Authorization = None,
            body = Undefined\<rparr> \<noteq> ''OPTIONS''
   \<and> get_Authorization \<lparr>method = ''POST'', path = ''/cds-services/patient-view-example'',
            get_Host = Some ''localhost:3000'', get_Authorization = None,
            body = Undefined\<rparr> = None
   \<and> authorizationHeader \<lparr>method = ''POST'', path = ''/cds-services/patient-view-example'',
            get_Host = Some ''localhost:3000'', get_Authorization = None,
            body = Undefined\<rparr> = ''Bearer open''
   \<and> authorization \<lparr>method = ''POST'', path = ''/cds-services/patient-view-example'',
            get_Host = Some ''localhost:3000'', get_Authorization = None,
            body = Undefined\<rparr> new_response = (Next, new_response)"
  using missing_header_defaults
    [of "\<lparr>method = ''POST'', path = ''/cds-services/patient-view-example'',
            get_Host = Some ''localhost:3000'', get_Authorization = None,
            body = Undefined\<rparr>" new_response "[]"]
  by simp


section \<open>Discovery\<close>

lemma cds_services_result:
  "\<exists>h'. cds_services h request response = Handled (send (Some catalog) response) h'"
  by (simp add: cds_services_def patientViewExample_def orderSelectExample_def alloc_def catalog_def)

lemma cds_services_part_000_result:
  "\<exists>h'. cds_services_part_000 h request response = Handled (send (Some catalog_part_000) response) h'"
  by (simp add: cds_services_part_000_def patientViewExample_part_000_def
        medicationPrescribeExample_def alloc_def catalog_part_000_def)

text \<open>
  C9, as amended. The discovery handler sends the catalog of its file whatever the store,
  the request and the response are: two service descriptors in the order of the source,
  the patient-view service with its prefetch template and the medication service with
  none; two invocations send the same catalog. In \<^verbatim>\<open>src/unnamed/part_000\<close> every
  \<^verbatim>\<open>GET\<close> to \<^verbatim>\<open>/cds-services\<close> gets this answer with the status 200. In
  \<^verbatim>\<open>src/index.js\<close> the route is behind the authorization middleware, and the \<^verbatim>\<open>GET\<close>
  requests that pass it get this answer with the status 200. The claim as stated is of
  every \<^verbatim>\<open>GET\<close>: a closed theorem below shows one with a \<^verbatim>\<open>Basic\<close> credential
  answered with the status 401 and no body.
\<close>

theorem discovery_catalog:
  assumes "method request = ''GET''" and "path request = ''/cds-services''"
  shows "(\<exists>h'. cds_services h request response
                 = Handled (send (Some catalog) response) h')
       \<and> (\<exists>h'. cds_services_part_000 h request response
                 = Handled (send (Some catalog_part_000) response) h')
       \<and> (starts_with (authorizationHeader request) ''Bearer''
            \<longrightarrow> (\<exists>h'. app h request = Handled (answer catalog) h'))
       \<and> (\<exists>h'. app_part_000 h request = Handled (answer catalog_part_000) h')
       \<and> sent (cds_services h request response) = sent (cds_services h_other request_other response_other)
       \<and> sent (cds_services_part_000 h request response)
           = sent (cds_services_part_000 h_other request_other response_other)"
proof -
  have a: "\<exists>h'. cds_services h request r = Handled (send (Some catalog) r) h'" for h request r
    by (rule cds_services_result)
  have b: "\<exists>h'. cds_services_part_000 h request r = Handled (send (Some catalog_part_000) r) h'"
    for h request r
    by (rule cds_services_part_000_result)
  have c: "sent (cds_services h request r) = Some catalog" for h request r
    using a [of h request r] by (auto simp: sent_def send_def)
  have d: "sent (cds_services_part_000 h request r) = Some catalog_part_000" for h request r
    using b [of h request r] by (auto simp: sent_def send_def)
  have e: "send (Some j) \<lparr>statusCode = 200, headers = cors_header_set, payload = None, ended = False\<rparr> = answer j" for j
    by (simp add: send_def answer_def)
  have f: "\<exists>h'. app_part_000 h request = Handled (answer catalog_part_000) h'"
    using assms b [of h request "\<lparr>statusCode = 200, headers = cors_header_set, payload = None, ended = False\<rparr>"]
    by (simp add: app_part_000_def cors_new_response routes_part_000_def e)
  have g: "\<exists>h'. app h request = Handled (answer catalog) h'"
    if "starts_with (authorizationHeader request) ''Bearer''"
    using assms that a [of h request "\<lparr>statusCode = 200, headers = cors_header_set, payload = None, ended = False\<rparr>"]
    by (simp add: app_def cors_new_response routes_def e gate_passes)
  show ?thesis using a b c d f g by simp
qed

theorem discovery_catalog_witness:
  "method \<lparr>method = ''GET'', path = ''/cds-services'', get_Host = Some ''localhost:3000'',
            get_Authorization = Some ''Bearer abc'', body = Undefined\<rparr> = ''GET''
   \<and> path \<lparr>method = ''GET'', path = ''/cds-services'', get_Host = Some ''localhost:3000'',
            get_Authorization = Some ''Bearer abc'', body = Undefined\<rparr> = ''/cds-services''
   \<and> starts_with (authorizationHeader \<lparr>method = ''GET'', path = ''/cds-services'',
            get_Host = Some ''localhost:3000'', get_Authorization = Some ''Bearer abc'',
            body = Undefined\<rparr>) ''Bearer''
   \<and> sent (app [] \<lparr>method = ''GET'', path = ''/cds-services'', get_Host = Some ''localhost:3000'',
            get_Authorization = Some ''Bearer abc'', body = Undefined\<rparr>) = Some catalog
   \<and> sent (app_part_000 [] \<lparr>method = ''GET'', path = ''/cds-services'',
            get_Host = Some ''localhost:3000'', get_Authorization = Some ''Bearer abc'',
            body = Undefined\<rparr>) = Some catalog_part_000"
proof -
  let ?R = "\<lparr>method = ''GET'', path = ''/cds-services'', get_Host = Some ''localhost:3000'',
             get_Authorization = Some ''Bearer abc'', body = Undefined\<rparr>"
  have g: "method ?R = ''GET''" and p: "path ?R = ''/cds-services''"
    by simp_all
  have b: "starts_with (authorizationHeader ?R) ''Bearer''"
    by (simp add: authorizationHeader_def)
  from discovery_catalog [OF g p, where h = "[]" and response = new_response
      and h_other = "[]" and request_other = ?R and response_other = new_response] b
  show ?thesis
    by (auto simp: sent_def answer_def)
qed



theorem discovery_is_behind_the_gate:
  "method \<lparr>method = ''GET'', path = ''/cds-services'', get_Host = Some ''localhost:3000'',
            get_Authorization = Some ''Basic dXNlcg=='', body = Undefined\<rparr> = ''GET''
   \<and> path \<lparr>method = ''GET'', path = ''/cds-services'', get_Host = Some ''localhost:3000'',
            get_Authorization = Some ''Basic dXNlcg=='', body = Undefined\<rparr> = ''/cds-services''
   \<and> map_option statusCode (response_of (app [] \<lparr>method = ''GET'', path = ''/cds-services'',
            get_Host = Some ''localhost:3000'', get_Authorization = Some ''Basic dXNlcg=='',
            body = Undefined\<rparr>)) = Some 401
   \<and> sent (app [] \<lparr>method = ''GET'', path = ''/cds-services'',
            get_Host = Some ''localhost:3000'', get_Authorization = Some ''Basic dXNlcg=='',
            body = Undefined\<rparr>) = None"
  by (simp add: app_def cors_new_response authorization_def authorizationHeader_def
        setHeader_def status_def end_response_def sent_def)

section \<open>Requests the gate rejects\<close>

text \<open>
  C7, as amended. A request with another method than \<^verbatim>\<open>OPTIONS\<close> whose
  \<^verbatim>\<open>Authorization\<close> header is present, not empty, and does not start with \<^verbatim>\<open>Bearer\<close>
  is answered by the authorization middleware of \<^verbatim>\<open>src/index.js\<close>: status 401, no body,
  the response ended, and a \<^verbatim>\<open>WWW-Authenticate\<close> header whose realm is the text of the
  request's host and whose error is \<^verbatim>\<open>invalid_token\<close>. The middleware does not call
  \<^verbatim>\<open>next()\<close>: the application returns this response for every path and body, and the
  store is as it was. The claim as stated includes the header that is present and empty,
  which the source replaces by the placeholder credential, as it does a missing one: a
  closed theorem below shows such a request answered by the discovery handler.
\<close>

theorem non_bearer_rejected:
  assumes "method request \<noteq> ''OPTIONS''"
    and "get_Authorization request = Some s" and "s \<noteq> []" and "\<not> starts_with s ''Bearer''"
  shows "authorization request response =
           (Halt, response\<lparr>statusCode := 401,
              headers := AList.update ''WWW-Authenticate''
                (''Bearer realm='' @ [dq]
                   @ (case get_Host request of None \<Rightarrow> ''undefined'' | Some host \<Rightarrow> host)
                   @ [dq] @ '', error='' @ [dq] @ ''invalid_token'' @ [dq]
                   @ '', error_description='' @ [dq] @ ''No Bearer token provided.'' @ [dq])
                (headers response),
              ended := True\<rparr>)
       \<and> app h request = Handled
           \<lparr>statusCode = 401,
            headers = cors_header_set @
              [(''WWW-Authenticate'', ''Bearer realm='' @ [dq]
                   @ (case get_Host request of None \<Rightarrow> ''undefined'' | Some host \<Rightarrow> host)
                   @ [dq] @ '', error='' @ [dq] @ ''invalid_token'' @ [dq]
                   @ '', error_description='' @ [dq] @ ''No Bearer token provided.'' @ [dq])],
            payload = None, ended = True\<rparr> h"
  using assms
  by (simp add: authorization_def authorizationHeader_def app_def cors_new_response setHeader_def
        status_def end_response_def challenge_def cors_header_set_def)

theorem non_bearer_rejected_witness:
  "method \<lparr>method = ''POST'', path = ''/cds-services/patient-view-example'',
            get_Host = Some ''localhost:3000'', get_Authorization = Some ''Basic dXNlcg=='',
            body = Undefined\<rparr> \<noteq> ''OPTIONS''
   \<and> ''Basic dXNlcg=='' \<noteq> [] \<and> \<not> starts_with ''Basic dXNlcg=='' ''Bearer''
   \<and> app [] \<lparr>method = ''POST'', path = ''/cds-services/patient-view-example'',
            get_Host = Some ''localhost:3000'', get_Authorization = Some ''Basic dXNlcg=='',
            body = Undefined\<rparr>
       = Handled \<lparr>statusCode = 401,
            headers = cors_header_set @
              [(''WWW-Authenticate'', ''Bearer realm='' @ [dq] @ ''localhost:3000'' @ [dq]
                   @ '', error='' @ [dq] @ ''invalid_token'' @ [dq]
                   @ '', error_description='' @ [dq] @ ''No Bearer token provided.'' @ [dq])],
            payload = None, ended = True\<rparr> []"
  using non_bearer_rejected
    [of "\<lparr>method = ''POST'', path = ''/cds-services/patient-view-example'',
            get_Host = Some ''localhost:3000'', get_Authorization = Some ''Basic dXNlcg=='',
            body = Undefined\<rparr>" "''Basic dXNlcg==''" new_response "[]"]
  by simp

theorem empty_header_not_rejected:
  "method \<lparr>method = ''GET'', path = ''/cds-services'', get_Host = Some ''localhost:3000'',
            get_Authorization = Some '''', body = Undefined\<rparr> \<noteq> ''OPTIONS''
   \<and> get_Authorization \<lparr>method = ''GET'', path = ''/cds-services'',
            get_Host = Some ''localhost:3000'', get_Authorization = Some '''',
            body = Undefined\<rparr> = Some ''''
   \<and> \<not> starts_with '''' ''Bearer''
   \<and> authorization \<lparr>method = ''GET'', path = ''/cds-services'',
            get_Host = Some ''localhost:3000'', get_Authorization = Some '''',
            body = Undefined\<rparr> new_response = (Next, new_response)
   \<and> response_of (app [] \<lparr>method = ''GET'', path = ''/cds-services'',
            get_Host = Some ''localhost:3000'', get_Authorization = Some '''',
            body = Undefined\<rparr>) = Some (answer catalog)"
proof -
  let ?R = "\<lparr>method = ''GET'', path = ''/cds-services'', get_Host = Some ''localhost:3000'',
             get_Authorization = Some '''', body = Undefined\<rparr>"
  have a: "authorization ?R r = (Next, r)" for r
    by (simp add: authorization_def authorizationHeader_def)
  obtain h' where "cds_services [] ?R \<lparr>statusCode = 200, headers = cors_header_set,
      payload = None, ended = False\<rparr> = Handled (send (Some catalog) \<lparr>statusCode = 200,
      headers = cors_header_set, payload = None, ended = False\<rparr>) h'"
    using cds_services_result by blast
  then have "response_of (app [] ?R) = Some (answer catalog)"
    by (simp add: app_def cors_new_response a routes_def send_def answer_def)
  with a show ?thesis by simp
qed

section \<open>The file without a gate\<close>

lemma finish_response:
  "response_of (finish x) = Some r \<Longrightarrow> \<exists>h. x = Inr (r, h)"
  by (auto simp: finish_def split: sum.splits)

lemma patient_view_example_part_000_status:
  "response_of (patient_view_example_part_000 h request response) = Some r
   \<Longrightarrow> statusCode r = statusCode response"
  unfolding patient_view_example_part_000_def
  by (drule finish_response) (auto simp: bindE_def send_def split: sum.splits prod.splits)

lemma medication_prescribe_example_status:
  "response_of (medication_prescribe_example h request response) = Some r
   \<Longrightarrow> statusCode r = 200"
  unfolding medication_prescribe_example_def
  by (drule finish_response)
     (auto simp: bindE_def send_def status_def split: sum.splits prod.splits if_splits)

lemma cds_services_part_000_status:
  "response_of (cds_services_part_000 h request response) = Some r
   \<Longrightarrow> statusCode r = statusCode response"
  using cds_services_part_000_result [of h request response] by (auto simp: send_def)

text \<open>
  C10. \<^verbatim>\<open>src/unnamed/part_000\<close> has no authorization middleware. Its application is the
  routes applied to the response that the cross-origin middleware prepared, for every
  request; a response it leaves, or hands to the framework for want of a route, has the
  status 200, never 401; the answer does not depend on the \<^verbatim>\<open>Authorization\<close> header;
  and a request for one of the three routes is handled by the handler of that route.
\<close>

theorem part_000_has_no_gate:
  "app_part_000 h request = routes_part_000 h request
      \<lparr>statusCode = 200, headers = cors_header_set, payload = None, ended = False\<rparr>
   \<and> (\<forall>r. response_of (app_part_000 h request) = Some r \<longrightarrow> statusCode r = 200)
   \<and> (\<forall>r. app_part_000 h request = NoRoute r \<longrightarrow> statusCode r = 200)
   \<and> app_part_000 h (request\<lparr>get_Authorization := credential\<rparr>) = app_part_000 h request
   \<and> (method request = ''GET'' \<and> path request = ''/cds-services''
        \<longrightarrow> app_part_000 h request = cds_services_part_000 h request
              \<lparr>statusCode = 200, headers = cors_header_set, payload = None, ended = False\<rparr>)
   \<and> (method request = ''POST'' \<and> path request = ''/cds-services/patient-view-example''
        \<longrightarrow> app_part_000 h request = patient_view_example_part_000 h request
              \<lparr>statusCode = 200, headers = cors_header_set, payload = None, ended = False\<rparr>)
   \<and> (method request = ''POST'' \<and> path request = ''/cds-services/medication-prescribe-example''
        \<longrightarrow> app_part_000 h request = medication_prescribe_example h request
              \<lparr>statusCode = 200, headers = cors_header_set, payload = None, ended = False\<rparr>)"
proof -
  let ?r = "\<lparr>statusCode = 200, headers = cors_header_set, payload = None, ended = False\<rparr>"
  have a: "app_part_000 h request = routes_part_000 h request ?r" for request
    by (simp add: app_part_000_def cors_new_response)
  have b: "statusCode r = 200" if "response_of (routes_part_000 h request ?r) = Some r" for r
    using that cds_services_part_000_status [of h request ?r r]
      patient_view_example_part_000_status [of h request ?r r]
      medication_prescribe_example_status [of h request ?r r]
    by (auto simp: routes_part_000_def split: if_splits)
  have c: "statusCode r = 200" if "routes_part_000 h request ?r = NoRoute r" for r
  proof -
    have "response_of (cds_services_part_000 h request ?r) \<noteq> None"
      using cds_services_part_000_result [of h request ?r] by auto
    moreover have "patient_view_example_part_000 h request ?r \<noteq> NoRoute r"
      "medication_prescribe_example h request ?r \<noteq> NoRoute r"
      by (auto simp: patient_view_example_part_000_def medication_prescribe_example_def
            finish_def split: sum.splits)
    ultimately show ?thesis
      using that by (auto simp: routes_part_000_def split: if_splits)
  qed
  have d: "routes_part_000 h (request\<lparr>get_Authorization := credential\<rparr>) ?r
         = routes_part_000 h request ?r"
    by (simp add: routes_part_000_def cds_services_part_000_def
          patient_view_example_part_000_def medication_prescribe_example_def)
  show ?thesis
    using b c d by (simp add: a routes_part_000_def)
qed


theorem part_000_has_no_gate_witness:
  "response_of (app_part_000 [] \<lparr>method = ''GET'', path = ''/cds-services'',
       get_Host = Some ''localhost:3000'', get_Authorization = Some ''Basic dXNlcg=='',
       body = Undefined\<rparr>) = Some (answer catalog_part_000)
   \<and> statusCode (answer catalog_part_000) = 200
   \<and> app_part_000 [] \<lparr>method = ''POST'', path = ''/cds-services/medication-prescribe-example'',
       get_Host = Some ''localhost:3000'', get_Authorization = Some ''Basic dXNlcg=='',
       body = Undefined\<rparr> = Threw TypeError"
proof -
  let ?G = "\<lparr>method = ''GET'', path = ''/cds-services'', get_Host = Some ''localhost:3000'',
             get_Authorization = Some ''Basic dXNlcg=='', body = Undefined\<rparr>"
  let ?P = "\<lparr>method = ''POST'', path = ''/cds-services/medication-prescribe-example'',
             get_Host = Some ''localhost:3000'', get_Authorization = Some ''Basic dXNlcg=='',
             body = Undefined\<rparr>"
  let ?r = "\<lparr>statusCode = 200, headers = cors_header_set, payload = None, ended = False\<rparr>"
  have "method ?G = ''GET'' \<and> path ?G = ''/cds-services''"
    by simp
  with part_000_has_no_gate [of "[]" ?G]
  have g: "app_part_000 [] ?G = cds_services_part_000 [] ?G ?r"
    by blast
  have "method ?P = ''POST'' \<and> path ?P = ''/cds-services/medication-prescribe-example''"
    by simp
  with part_000_has_no_gate [of "[]" ?P]
  have p: "app_part_000 [] ?P = medication_prescribe_example [] ?P ?r"
    by blast
  have "response_of (cds_services_part_000 [] ?G ?r) = Some (answer catalog_part_000)"
    using cds_services_part_000_result [of "[]" ?G ?r] by (auto simp: send_def answer_def)
  moreover have "medication_prescribe_example [] ?P ?r = Threw TypeError"
    by (simp add: medication_prescribe_example_def)
  ultimately show ?thesis
    using g p by (simp add: answer_def)
qed



section \<open>The card generator\<close>

lemma parsed_draft_order:
  "parsed (draft_order c) =
     (Ref 3,
      [Obj [(''display'', Str ''Acetaminophen 325 MG Oral Tablet''),
            (''system'', Str ''http://www.nlm.nih.gov/research/umls/rxnorm''),
            (''code'', Str c)],
       Arr [Ref 0] [],
       Obj [(''text'', Str ''Acetaminophen 325 MG Oral Tablet''), (''coding'', Ref 1)],
       Obj [(''resourceType'', Str ''MedicationRequest''), (''id'', Str ''order-123''),
            (''medicationCodeableConcept'', Ref 2), (''status'', Str ''draft'')]])"
  by (simp add: parsed_def load_def draft_order_def alloc_def)

lemma code_of_parsed_draft_order:
  "get_path (snd (parsed (draft_order c))) (fst (parsed (draft_order c)))
     [Prop ''medicationCodeableConcept'', Prop ''coding'', Idx 0, Prop ''code''] = Inr (Str c)"
  by (simp add: parsed_draft_order own_def)

lemma warning_card_index:
  assumes "get_path h context
             [Prop ''medicationCodeableConcept'', Prop ''coding'', Idx 0, Prop ''code''] = Inr code"
    and "code \<noteq> Str ''243670''"
  shows "\<exists>response h' card suggestion action.
           createMedicationResponseCard h context = Inr (response, h')
         \<and> items h' response ''cards'' = Some [card]
         \<and> get h' card (Prop ''indicator'') = Inr (Str ''warning'')
         \<and> get h' card (Prop ''summary'')
             = Inr (Str ''Reduce cardiovascular risks, prescribe daily 81 MG Aspirin'')
         \<and> items h' card ''suggestions'' = Some [suggestion]
         \<and> items h' suggestion ''actions'' = Some [action]
         \<and> get h' action (Prop ''type'') = Inr (Str ''create'')
         \<and> get h' action (Prop ''resource'') = Inr context
         \<and> get_path h' context
              [Prop ''medicationCodeableConcept'', Prop ''coding'', Idx 0, Prop ''code'']
             = Inr (Str ''243670'')"
proof -
  obtain a where a: "context = Ref a" "a < length h"
    using context_is_reference [OF assms(1)] by blast
  show ?thesis
    apply (simp add: createMedicationResponseCard_def assms Let_def del: get_path.simps)
    apply (insert a(2), unfold a(1))
    apply (cases "h ! a")
     apply (simp_all add: aspirin_def alloc_def items_def own_def update_conv' nth_append
        nth_list_update)
    done
qed

lemma warning_card_part_000:
  assumes "get_path h context
             [Prop ''medicationCodeableConcept'', Prop ''coding'', Idx 0, Prop ''code''] = Inr code"
    and "code \<noteq> Str ''243670''"
  shows "\<exists>response h' card suggestion action.
           createMedicationResponseCard_part_000 h context = Inr (response, h')
         \<and> items h' response ''cards'' = Some [card]
         \<and> get h' card (Prop ''indicator'') = Inr (Str ''warning'')
         \<and> get h' card (Prop ''summary'')
             = Inr (Str ''Reduce cardiovascular risks, prescribe daily 81 MG Aspirin'')
         \<and> items h' card ''suggestions'' = Some [suggestion]
         \<and> items h' suggestion ''actions'' = Some [action]
         \<and> get h' action (Prop ''type'') = Inr (Str ''create'')
         \<and> get h' action (Prop ''resource'') = Inr context
         \<and> get_path h' context
              [Prop ''medicationCodeableConcept'', Prop ''coding'', Idx 0, Prop ''code'']
             = Inr (Str ''243670'')"
proof -
  obtain a where a: "context = Ref a" "a < length h"
    using context_is_reference [OF assms(1)] by blast
  show ?thesis
    apply (simp add: createMedicationResponseCard_part_000_def assms Let_def del: get_path.simps)
    apply (insert a(2), unfold a(1))
    apply (cases "h ! a")
     apply (simp_all add: aspirin_def alloc_def items_def own_def update_conv' nth_append
        nth_list_update)
    done
qed

lemma parsed_order_select:
  "parsed (order_select_body (draft_order c)) =
     (Ref 9,
      [Arr [Str ''MedicationRequest/order-123''] [],
       Obj [(''display'', Str ''Acetaminophen 325 MG Oral Tablet''),
            (''system'', Str ''http://www.nlm.nih.gov/research/umls/rxnorm''),
            (''code'', Str c)],
       Arr [Ref 1] [],
       Obj [(''text'', Str ''Acetaminophen 325 MG Oral Tablet''), (''coding'', Ref 2)],
       Obj [(''resourceType'', Str ''MedicationRequest''), (''id'', Str ''order-123''),
            (''medicationCodeableConcept'', Ref 3), (''status'', Str ''draft'')],
       Obj [(''resource'', Ref 4)],
       Arr [Ref 5] [],
       Obj [(''entry'', Ref 6)],
       Obj [(''selections'', Ref 0), (''draftOrders'', Ref 7)],
       Obj [(''context'', Ref 8)]])"
  by (simp add: parsed_def load_def order_select_body_def draft_order_def alloc_def)

lemma suggestion_sent_index:
  "sent (app (snd (parsed (order_select_body (draft_order ''999999''))))
          (post ''/cds-services/order-select-example''
             (fst (parsed (order_select_body (draft_order ''999999''))))))
   = Some (JObj [(''cards'', JArr [JObj
       [(''summary'', JStr ''Reduce cardiovascular risks, prescribe daily 81 MG Aspirin''),
        (''indicator'', JStr ''warning''),
        (''suggestions'', JArr [JObj
           [(''label'', JStr ''Switch to low-dose Aspirin''),
            (''actions'', JArr [JObj
               [(''type'', JStr ''create''),
                (''description'', JStr ''Modifying existing medication order to be Aspirin''),
                (''resource'', JObj
                   [(''resourceType'', JStr ''MedicationRequest''),
                    (''id'', JStr ''order-123''),
                    (''medicationCodeableConcept'', JObj
                       [(''text'', JStr ''Aspirin 81 MG Oral Tablet''),
                        (''coding'', JArr [JObj
                           [(''display'', JStr ''Aspirin 81 MG Oral Tablet''),
                            (''system'', JStr ''http://www.nlm.nih.gov/research/umls/rxnorm''),
                            (''code'', JStr ''243670'')]])]),
                    (''status'', JStr ''draft'')])]])]]),
        (''source'', JObj
           [(''label'', JStr ''CDS Service Tutorial''),
            (''url'', JStr ''https://github.com/cerner/cds-services-tutorial/wiki/Order-Select-Service'')])]])])"
  by (simp add: parsed_order_select app_def cors_new_response post_def
        authorization_def authorizationHeader_def routes_def order_select_example_def
        medication_chosen_def plus_str_def own_def createMedicationResponseCard_def
        aspirin_def alloc_def sent_def send_def status_def Let_def)


lemma parsed_medication_prescribe:
  "parsed (medication_prescribe_body (draft_order c)) =
     (Ref 5,
      [Obj [(''display'', Str ''Acetaminophen 325 MG Oral Tablet''),
            (''system'', Str ''http://www.nlm.nih.gov/research/umls/rxnorm''),
            (''code'', Str c)],
       Arr [Ref 0] [],
       Obj [(''text'', Str ''Acetaminophen 325 MG Oral Tablet''), (''coding'', Ref 1)],
       Obj [(''resourceType'', Str ''MedicationRequest''), (''id'', Str ''order-123''),
            (''medicationCodeableConcept'', Ref 2), (''status'', Str ''draft'')],
       Arr [Ref 3] [],
       Obj [(''context'', Ref 4)]])"
  by (simp add: parsed_def load_def medication_prescribe_body_def draft_order_def alloc_def)

lemma suggestion_sent_part_000:
  "sent (app_part_000 (snd (parsed (medication_prescribe_body (draft_order ''999999''))))
          (post ''/cds-services/medication-prescribe-example''
             (fst (parsed (medication_prescribe_body (draft_order ''999999''))))))
   = Some (JObj [(''cards'', JArr [JObj
       [(''summary'', JStr ''Reduce cardiovascular risks, prescribe daily 81 MG Aspirin''),
        (''indicator'', JStr ''warning''),
        (''suggestions'', JArr [JObj
           [(''label'', JStr ''Switch to low-dose Aspirin''),
            (''actions'', JArr [JObj
               [(''type'', JStr ''create''),
                (''resource'', JObj
                   [(''resourceType'', JStr ''MedicationRequest''),
                    (''id'', JStr ''order-123''),
                    (''medicationCodeableConcept'', JObj
                       [(''text'', JStr ''Aspirin 81 MG Oral Tablet''),
                        (''coding'', JArr [JObj
                           [(''display'', JStr ''Aspirin 81 MG Oral Tablet''),
                            (''system'', JStr ''http://www.nlm.nih.gov/research/umls/rxnorm''),
                            (''code'', JStr ''243670'')]])]),
                    (''status'', JStr ''draft'')])]])]]),
        (''source'', JObj
           [(''label'', JStr ''Learn more about Suggestions''),
            (''url'', JStr ''http://cds-hooks.org/#cds-service-response'')])]])])"
  by (simp add: parsed_medication_prescribe app_part_000_def cors_new_response post_def
        routes_part_000_def medication_prescribe_example_def own_def
        createMedicationResponseCard_part_000_def aspirin_def alloc_def sent_def send_def
        status_def Let_def)

text \<open>
  C1. When the draft order passed to \<^verbatim>\<open>createMedicationResponseCard\<close> has a value at
  \<^verbatim>\<open>medicationCodeableConcept.coding[0].code\<close> and the value is not the string
  \<^verbatim>\<open>243670\<close>, the function of either file returns a response object whose \<^verbatim>\<open>cards\<close> are
  one card with the indicator \<^verbatim>\<open>warning\<close>, whose \<^verbatim>\<open>suggestions\<close> are one suggestion,
  whose \<^verbatim>\<open>actions\<close> are one action of the type \<^verbatim>\<open>create\<close>, and the resource of the
  action reads \<^verbatim>\<open>243670\<close> at \<^verbatim>\<open>medicationCodeableConcept.coding[0].code\<close>. The lemmas
  \<open>suggestion_sent_index\<close> and \<open>suggestion_sent_part_000\<close> give the document that the
  two applications send for the example order with the code \<^verbatim>\<open>999999\<close>.
\<close>

theorem suggestion_card:
  assumes "get_path h context
             [Prop ''medicationCodeableConcept'', Prop ''coding'', Idx 0, Prop ''code''] = Inr code"
    and "code \<noteq> Str ''243670''"
  shows "(\<exists>response h' card suggestion action.
            createMedicationResponseCard h context = Inr (response, h')
          \<and> items h' response ''cards'' = Some [card]
          \<and> get h' card (Prop ''indicator'') = Inr (Str ''warning'')
          \<and> items h' card ''suggestions'' = Some [suggestion]
          \<and> items h' suggestion ''actions'' = Some [action]
          \<and> get h' action (Prop ''type'') = Inr (Str ''create'')
          \<and> get_path h' action
               [Prop ''resource'', Prop ''medicationCodeableConcept'', Prop ''coding'', Idx 0,
                Prop ''code''] = Inr (Str ''243670''))
       \<and> (\<exists>response h' card suggestion action.
            createMedicationResponseCard_part_000 h context = Inr (response, h')
          \<and> items h' response ''cards'' = Some [card]
          \<and> get h' card (Prop ''indicator'') = Inr (Str ''warning'')
          \<and> items h' card ''suggestions'' = Some [suggestion]
          \<and> items h' suggestion ''actions'' = Some [action]
          \<and> get h' action (Prop ''type'') = Inr (Str ''create'')
          \<and> get_path h' action
               [Prop ''resource'', Prop ''medicationCodeableConcept'', Prop ''coding'', Idx 0,
                Prop ''code''] = Inr (Str ''243670''))"
proof (rule conjI)
  from warning_card_index [OF assms]
  obtain response h' card suggestion action where
    r: "createMedicationResponseCard h context = Inr (response, h')"
      "items h' response ''cards'' = Some [card]"
      "get h' card (Prop ''indicator'') = Inr (Str ''warning'')"
      "items h' card ''suggestions'' = Some [suggestion]"
      "items h' suggestion ''actions'' = Some [action]"
      "get h' action (Prop ''type'') = Inr (Str ''create'')"
      "get h' action (Prop ''resource'') = Inr context"
      "get_path h' context
         [Prop ''medicationCodeableConcept'', Prop ''coding'', Idx 0, Prop ''code'']
       = Inr (Str ''243670'')"
    by blast
  from r(7,8) have "get_path h' action
      [Prop ''resource'', Prop ''medicationCodeableConcept'', Prop ''coding'', Idx 0,
       Prop ''code''] = Inr (Str ''243670'')"
    by simp
  with r(1-6) show "\<exists>response h' card suggestion action.
            createMedicationResponseCard h context = Inr (response, h')
          \<and> items h' response ''cards'' = Some [card]
          \<and> get h' card (Prop ''indicator'') = Inr (Str ''warning'')
          \<and> items h' card ''suggestions'' = Some [suggestion]
          \<and> items h' suggestion ''actions'' = Some [action]
          \<and> get h' action (Prop ''type'') = Inr (Str ''create'')
          \<and> get_path h' action
               [Prop ''resource'', Prop ''medicationCodeableConcept'', Prop ''coding'', Idx 0,
                Prop ''code''] = Inr (Str ''243670'')"
    by blast
next
  from warning_card_part_000 [OF assms]
  obtain response h' card suggestion action where
    r: "createMedicationResponseCard_part_000 h context = Inr (response, h')"
      "items h' response ''cards'' = Some [card]"
      "get h' card (Prop ''indicator'') = Inr (Str ''warning'')"
      "items h' card ''suggestions'' = Some [suggestion]"
      "items h' suggestion ''actions'' = Some [action]"
      "get h' action (Prop ''type'') = Inr (Str ''create'')"
      "get h' action (Prop ''resource'') = Inr context"
      "get_path h' context
         [Prop ''medicationCodeableConcept'', Prop ''coding'', Idx 0, Prop ''code'']
       = Inr (Str ''243670'')"
    by blast
  from r(7,8) have "get_path h' action
      [Prop ''resource'', Prop ''medicationCodeableConcept'', Prop ''coding'', Idx 0,
       Prop ''code''] = Inr (Str ''243670'')"
    by simp
  with r(1-6) show "\<exists>response h' card suggestion action.
            createMedicationResponseCard_part_000 h context = Inr (response, h')
          \<and> items h' response ''cards'' = Some [card]
          \<and> get h' card (Prop ''indicator'') = Inr (Str ''warning'')
          \<and> items h' card ''suggestions'' = Some [suggestion]
          \<and> items h' suggestion ''actions'' = Some [action]
          \<and> get h' action (Prop ''type'') = Inr (Str ''create'')
          \<and> get_path h' action
               [Prop ''resource'', Prop ''medicationCodeableConcept'', Prop ''coding'', Idx 0,
                Prop ''code''] = Inr (Str ''243670'')"
    by blast
qed

theorem suggestion_card_witness:
  "get_path (snd (parsed (draft_order ''999999''))) (fst (parsed (draft_order ''999999'')))
     [Prop ''medicationCodeableConcept'', Prop ''coding'', Idx 0, Prop ''code'']
     = Inr (Str ''999999'')
   \<and> Str ''999999'' \<noteq> Str ''243670''
   \<and> (\<exists>response h' card suggestion action.
         createMedicationResponseCard (snd (parsed (draft_order ''999999'')))
           (fst (parsed (draft_order ''999999''))) = Inr (response, h')
       \<and> items h' response ''cards'' = Some [card]
       \<and> get h' card (Prop ''indicator'') = Inr (Str ''warning'')
       \<and> items h' card ''suggestions'' = Some [suggestion]
       \<and> items h' suggestion ''actions'' = Some [action]
       \<and> get h' action (Prop ''type'') = Inr (Str ''create'')
       \<and> get_path h' action
            [Prop ''resource'', Prop ''medicationCodeableConcept'', Prop ''coding'', Idx 0,
             Prop ''code''] = Inr (Str ''243670''))"
proof -
  have c: "get_path (snd (parsed (draft_order ''999999''))) (fst (parsed (draft_order ''999999'')))
     [Prop ''medicationCodeableConcept'', Prop ''coding'', Idx 0, Prop ''code'']
     = Inr (Str ''999999'')"
    by (rule code_of_parsed_draft_order)
  have n: "Str ''999999'' \<noteq> Str ''243670''"
    by simp
  from suggestion_card [OF c n] c n show ?thesis
    by blast
qed


lemma info_card_index:
  assumes "get_path h context
             [Prop ''medicationCodeableConcept'', Prop ''coding'', Idx 0, Prop ''code'']
           = Inr (Str ''243670'')"
  shows "\<exists>response cells card.
           createMedicationResponseCard h context = Inr (response, h @ cells)
         \<and> items (h @ cells) response ''cards'' = Some [card]
         \<and> get (h @ cells) card (Prop ''indicator'') = Inr (Str ''info'')
         \<and> get (h @ cells) card (Prop ''summary'')
             = Inr (Str ''Currently prescribing a low-dose Aspirin'')
         \<and> get (h @ cells) card (Prop ''suggestions'') = Inr Undefined
         \<and> stringify (h @ cells) [] response = Inr (Some (JObj [(''cards'', JArr [JObj
               [(''summary'', JStr ''Currently prescribing a low-dose Aspirin''),
                (''indicator'', JStr ''info''),
                (''source'', JObj
                   [(''label'', JStr ''CDS Service Tutorial''),
                    (''url'', JStr ''https://github.com/cerner/cds-services-tutorial/wiki/Order-Select-Service'')])]])]))"
  by (simp add: createMedicationResponseCard_def assms alloc_def items_def own_def
        del: get_path.simps)

lemma info_card_part_000:
  assumes "get_path h context
             [Prop ''medicationCodeableConcept'', Prop ''coding'', Idx 0, Prop ''code'']
           = Inr (Str ''243670'')"
  shows "\<exists>response cells card.
           createMedicationResponseCard_part_000 h context = Inr (response, h @ cells)
         \<and> items (h @ cells) response ''cards'' = Some [card]
         \<and> get (h @ cells) card (Prop ''indicator'') = Inr (Str ''info'')
         \<and> get (h @ cells) card (Prop ''summary'')
             = Inr (Str ''Currently prescribing a low-dose Aspirin'')
         \<and> get (h @ cells) card (Prop ''suggestions'') = Inr Undefined
         \<and> stringify (h @ cells) [] response = Inr (Some (JObj [(''cards'', JArr [JObj
               [(''summary'', JStr ''Currently prescribing a low-dose Aspirin''),
                (''indicator'', JStr ''info'')]])]))"
  by (simp add: createMedicationResponseCard_part_000_def assms alloc_def items_def own_def
        del: get_path.simps)



text \<open>
  C2. When the value at \<^verbatim>\<open>medicationCodeableConcept.coding[0].code\<close> of the draft order
  is the string \<^verbatim>\<open>243670\<close>, the function of either file returns a response object whose
  \<^verbatim>\<open>cards\<close> are one card with the indicator \<^verbatim>\<open>info\<close> and the summary
  \<^verbatim>\<open>Currently prescribing a low-dose Aspirin\<close>. The card has no \<^verbatim>\<open>suggestions\<close>: the
  property reads \<^verbatim>\<open>undefined\<close>, and the document the response serialises to has no such
  member. The store is extended by the new objects and otherwise as it was.
\<close>

theorem information_card:
  assumes "get_path h context
             [Prop ''medicationCodeableConcept'', Prop ''coding'', Idx 0, Prop ''code'']
           = Inr (Str ''243670'')"
  shows "(\<exists>response cells card.
            createMedicationResponseCard h context = Inr (response, h @ cells)
          \<and> items (h @ cells) response ''cards'' = Some [card]
          \<and> get (h @ cells) card (Prop ''indicator'') = Inr (Str ''info'')
          \<and> get (h @ cells) card (Prop ''summary'')
              = Inr (Str ''Currently prescribing a low-dose Aspirin'')
          \<and> get (h @ cells) card (Prop ''suggestions'') = Inr Undefined
          \<and> stringify (h @ cells) [] response = Inr (Some (JObj [(''cards'', JArr [JObj
                [(''summary'', JStr ''Currently prescribing a low-dose Aspirin''),
                 (''indicator'', JStr ''info''),
                 (''source'', JObj
                    [(''label'', JStr ''CDS Service Tutorial''),
                     (''url'', JStr ''https://github.com/cerner/cds-services-tutorial/wiki/Order-Select-Service'')])]])])))
       \<and> (\<exists>response cells card.
            createMedicationResponseCard_part_000 h context = Inr (response, h @ cells)
          \<and> items (h @ cells) response ''cards'' = Some [card]
          \<and> get (h @ cells) card (Prop ''indicator'') = Inr (Str ''info'')
          \<and> get (h @ cells) card (Prop ''summary'')
              = Inr (Str ''Currently prescribing a low-dose Aspirin'')
          \<and> get (h @ cells) card (Prop ''suggestions'') = Inr Undefined
          \<and> stringify (h @ cells) [] response = Inr (Some (JObj [(''cards'', JArr [JObj
                [(''summary'', JStr ''Currently prescribing a low-dose Aspirin''),
                 (''indicator'', JStr ''info'')]])])))"
  using info_card_index [OF assms] info_card_part_000 [OF assms]
  by (rule conjI)

theorem information_card_witness:
  "get_path (snd (parsed (draft_order ''243670''))) (fst (parsed (draft_order ''243670'')))
     [Prop ''medicationCodeableConcept'', Prop ''coding'', Idx 0, Prop ''code'']
     = Inr (Str ''243670'')
   \<and> (\<exists>response cells card.
         createMedicationResponseCard (snd (parsed (draft_order ''243670'')))
           (fst (parsed (draft_order ''243670'')))
           = Inr (response, snd (parsed (draft_order ''243670'')) @ cells)
       \<and> items (snd (parsed (draft_order ''243670'')) @ cells) response ''cards'' = Some [card]
       \<and> get (snd (parsed (draft_order ''243670'')) @ cells) card (Prop ''indicator'')
           = Inr (Str ''info'')
       \<and> get (snd (parsed (draft_order ''243670'')) @ cells) card (Prop ''suggestions'')
           = Inr Undefined)"
proof -
  have c: "get_path (snd (parsed (draft_order ''243670''))) (fst (parsed (draft_order ''243670'')))
     [Prop ''medicationCodeableConcept'', Prop ''coding'', Idx 0, Prop ''code'']
     = Inr (Str ''243670'')"
    by (rule code_of_parsed_draft_order)
  from information_card [OF c] c show ?thesis
    by blast
qed

text \<open>
  C3. The claim is that the replacement is built on a copy and the draft order of the
  caller is left as it was. The comment in both files announces a copy
  (\<^verbatim>\<open>1. Copy the current MedicationRequest/MedicationOrder resource\<close>), and the statement
  under it, \<^verbatim>\<open>let newMedicationRequest = context\<close>, binds the same object, to which the
  next statement assigns. For the example draft order with the code \<^verbatim>\<open>999999\<close> the
  caller's \<^verbatim>\<open>medicationCodeableConcept.text\<close> is
  \<^verbatim>\<open>Acetaminophen 325 MG Oral Tablet\<close> before the call and
  \<^verbatim>\<open>Aspirin 81 MG Oral Tablet\<close> in the store the call leaves, in both files. The lemmas
  \<open>warning_card_index\<close> and \<open>warning_card_part_000\<close> say so of every draft order with
  another code: the resource of the action is the reference passed in, and the code read
  through it after the call is \<^verbatim>\<open>243670\<close>.
\<close>

theorem draft_order_is_overwritten:
  "get_path (snd (parsed (draft_order ''999999''))) (fst (parsed (draft_order ''999999'')))
     [Prop ''medicationCodeableConcept'', Prop ''text'']
     = Inr (Str ''Acetaminophen 325 MG Oral Tablet'')
   \<and> get_path
       (store_after (createMedicationResponseCard (snd (parsed (draft_order ''999999'')))
          (fst (parsed (draft_order ''999999'')))))
       (fst (parsed (draft_order ''999999'')))
       [Prop ''medicationCodeableConcept'', Prop ''text'']
     = Inr (Str ''Aspirin 81 MG Oral Tablet'')
   \<and> get_path
       (store_after (createMedicationResponseCard_part_000 (snd (parsed (draft_order ''999999'')))
          (fst (parsed (draft_order ''999999'')))))
       (fst (parsed (draft_order ''999999'')))
       [Prop ''medicationCodeableConcept'', Prop ''text'']
     = Inr (Str ''Aspirin 81 MG Oral Tablet'')"
  by (simp add: parsed_draft_order createMedicationResponseCard_def
        createMedicationResponseCard_part_000_def own_def aspirin_def alloc_def store_after_def)


section \<open>A request without advice\<close>

lemma unmet_contract_index:
  assumes "get_path h (body request)
             [Prop ''context'', Prop ''draftOrders'', Prop ''entry'', Idx 0, Prop ''resource'']
           = Inr draftOrder"
    and "get_path h (body request) [Prop ''context'', Prop ''selections''] = Inr selections"
    and "medication_chosen h draftOrder selections = Inr False"
  shows "order_select_example h request response = Handled (status 200 response) h"
  by (simp add: order_select_example_def assms del: get_path.simps)

lemma unmet_contract_part_000:
  assumes "get_path h (body request) [Prop ''context'', Idx 0] = Inr context"
    and "get h context (Prop ''medicationCodeableConcept'') = Inr concept"
    and "\<not> truthy concept"
  shows "medication_prescribe_example h request response = Handled (status 200 response) h"
  by (simp add: medication_prescribe_example_def assms del: get_path.simps)

lemma status_leaves_open: "ended (status c response) = ended response"
  by (simp add: status_def)

lemma parsed_order_select_without_medication:
  "parsed (order_select_body draft_order_without_medication) =
     (Ref 6,
      [Arr [Str ''MedicationRequest/order-123''] [],
       Obj [(''resourceType'', Str ''MedicationRequest''), (''id'', Str ''order-123''),
            (''status'', Str ''draft'')],
       Obj [(''resource'', Ref 1)],
       Arr [Ref 2] [],
       Obj [(''entry'', Ref 3)],
       Obj [(''selections'', Ref 0), (''draftOrders'', Ref 4)],
       Obj [(''context'', Ref 5)]])"
  by (simp add: parsed_def load_def order_select_body_def draft_order_without_medication_def
        alloc_def)

lemma parsed_medication_prescribe_without_medication:
  "parsed (medication_prescribe_body draft_order_without_medication) =
     (Ref 2,
      [Obj [(''resourceType'', Str ''MedicationRequest''), (''id'', Str ''order-123''),
            (''status'', Str ''draft'')],
       Arr [Ref 0] [],
       Obj [(''context'', Ref 1)]])"
  by (simp add: parsed_def load_def medication_prescribe_body_def
        draft_order_without_medication_def alloc_def)

text \<open>
  C4. The claim is that a request for a medication route that does not meet the contract
  is answered with the status 200 and no body. The handlers of both files end with
  \<^verbatim>\<open>response.status(200)\<close>, which stores the code; on this path nothing sends or ends
  the response. For the example request whose draft order has no
  \<^verbatim>\<open>medicationCodeableConcept\<close> the application of either file returns with the status
  code 200, no body and the response not ended, so that nothing goes to the client. The
  lemmas \<open>unmet_contract_index\<close> and \<open>unmet_contract_part_000\<close> say so of every request
  whose condition is false: the response is the one the handler was given, with the code
  set. The authorization middleware of \<^verbatim>\<open>src/index.js\<close> ends its own answer, with
  \<^verbatim>\<open>response.status(401).end()\<close>.
\<close>

theorem no_advice_is_never_sent:
  "app (snd (parsed (order_select_body draft_order_without_medication)))
       (post ''/cds-services/order-select-example''
          (fst (parsed (order_select_body draft_order_without_medication))))
     = Handled \<lparr>statusCode = 200, headers = cors_header_set, payload = None, ended = False\<rparr>
         (snd (parsed (order_select_body draft_order_without_medication)))
   \<and> app_part_000 (snd (parsed (medication_prescribe_body draft_order_without_medication)))
       (post ''/cds-services/medication-prescribe-example''
          (fst (parsed (medication_prescribe_body draft_order_without_medication))))
     = Handled \<lparr>statusCode = 200, headers = cors_header_set, payload = None, ended = False\<rparr>
         (snd (parsed (medication_prescribe_body draft_order_without_medication)))"
proof (rule conjI)
  show "app (snd (parsed (order_select_body draft_order_without_medication)))
       (post ''/cds-services/order-select-example''
          (fst (parsed (order_select_body draft_order_without_medication))))
     = Handled \<lparr>statusCode = 200, headers = cors_header_set, payload = None, ended = False\<rparr>
         (snd (parsed (order_select_body draft_order_without_medication)))"
    by (simp add: parsed_order_select_without_medication app_def cors_new_response post_def
          authorization_def authorizationHeader_def routes_def order_select_example_def
          medication_chosen_def plus_str_def own_def status_def)
next
  show "app_part_000 (snd (parsed (medication_prescribe_body draft_order_without_medication)))
       (post ''/cds-services/medication-prescribe-example''
          (fst (parsed (medication_prescribe_body draft_order_without_medication))))
     = Handled \<lparr>statusCode = 200, headers = cors_header_set, payload = None, ended = False\<rparr>
         (snd (parsed (medication_prescribe_body draft_order_without_medication)))"
    by (simp add: parsed_medication_prescribe_without_medication app_part_000_def
          cors_new_response post_def routes_part_000_def medication_prescribe_example_def
          own_def status_def)
qed

section \<open>The patient-view card\<close>

lemma parsed_patient_view_body:
  "parsed (patient_view_body given family) =
     (Ref 7,
      [Arr [Str given] [],
       Arr [Str family] [],
       Obj [(''given'', Ref 0), (''family'', Ref 1)],
       Arr [Ref 2] [],
       Obj [(''resourceType'', Str ''Patient''), (''name'', Ref 3)],
       Obj [(''resource'', Ref 4)],
       Obj [(''requestedPatient'', Ref 5)],
       Obj [(''prefetch'', Ref 6)]])"
  by (simp add: parsed_def load_def patient_view_body_def alloc_def)

text \<open>
  C8. When the body of a patient-view request has \<^verbatim>\<open>prefetch.requestedPatient.resource\<close>,
  and \<^verbatim>\<open>name[0].given[0]\<close> and \<^verbatim>\<open>name[0].family[0]\<close> of that resource have values with a
  text, the handler of either file sends one card: its summary is \<^verbatim>\<open>Now seeing: \<close>
  followed by the text of the given name, a space and the text of the family name, its
  indicator is \<^verbatim>\<open>info\<close>, it has the link to \<^verbatim>\<open>http://cds-hooks.org\<close>, and it has no
  suggestions. The response is otherwise the one the handler was given. The text of a
  string is the string: for the names Ana and Lee the summary is \<^verbatim>\<open>Now seeing: Ana Lee\<close>.
\<close>

theorem patient_view_card:
  assumes "get_path h (body request)
             [Prop ''prefetch'', Prop ''requestedPatient'', Prop ''resource''] = Inr patientResource"
    and "get_path h patientResource [Prop ''name'', Idx 0, Prop ''given'', Idx 0] = Inr given"
    and "to_string h [] given = Inr given_text"
    and "get_path h patientResource [Prop ''name'', Idx 0, Prop ''family'', Idx 0] = Inr family"
    and "to_string h [] family = Inr family_text"
  shows "(\<exists>h'. patient_view_example h request response = Handled (send (Some (JObj
            [(''cards'', JArr [JObj
               [(''summary'', JStr (''Now seeing: '' @ given_text @ '' '' @ family_text)),
                (''indicator'', JStr ''info''),
                (''source'', JObj
                   [(''label'', JStr ''CDS Service Tutorial''),
                    (''url'', JStr ''https://github.com/cerner/cds-services-tutorial/wiki/Patient-View-Service'')]),
                (''links'', JArr [JObj
                   [(''label'', JStr ''Learn more about CDS Hooks''),
                    (''url'', JStr ''http://cds-hooks.org''),
                    (''type'', JStr ''absolute'')]])]])])) response) h')
       \<and> (\<exists>h'. patient_view_example_part_000 h request response = Handled (send (Some (JObj
            [(''cards'', JArr [JObj
               [(''summary'', JStr (''Now seeing: '' @ given_text @ '' '' @ family_text)),
                (''indicator'', JStr ''info''),
                (''links'', JArr [JObj
                   [(''label'', JStr ''Learn more about CDS Hooks''),
                    (''url'', JStr ''http://cds-hooks.org''),
                    (''type'', JStr ''absolute'')]])]])])) response) h')
       \<and> to_string h [] (Str text) = Inr text"
proof -
  have s: "summary_of h patientResource
             = Inr (''Now seeing: '' @ given_text @ '' '' @ family_text)"
    by (simp add: summary_of_def plus_str_def assms(2-5) del: get_path.simps)
  show ?thesis
    by (simp add: patient_view_example_def patient_view_example_part_000_def assms(1) s
          alloc_def del: get_path.simps)
qed

theorem patient_view_card_witness:
  "get_path (snd (parsed (patient_view_body ''Ana'' ''Lee'')))
     (body (post ''/cds-services/patient-view-example''
        (fst (parsed (patient_view_body ''Ana'' ''Lee'')))))
     [Prop ''prefetch'', Prop ''requestedPatient'', Prop ''resource''] = Inr (Ref 4)
   \<and> get_path (snd (parsed (patient_view_body ''Ana'' ''Lee''))) (Ref 4)
       [Prop ''name'', Idx 0, Prop ''given'', Idx 0] = Inr (Str ''Ana'')
   \<and> get_path (snd (parsed (patient_view_body ''Ana'' ''Lee''))) (Ref 4)
       [Prop ''name'', Idx 0, Prop ''family'', Idx 0] = Inr (Str ''Lee'')
   \<and> sent (patient_view_example (snd (parsed (patient_view_body ''Ana'' ''Lee'')))
        (post ''/cds-services/patient-view-example''
           (fst (parsed (patient_view_body ''Ana'' ''Lee'')))) new_response)
       = Some (JObj
            [(''cards'', JArr [JObj
               [(''summary'', JStr ''Now seeing: Ana Lee''),
                (''indicator'', JStr ''info''),
                (''source'', JObj
                   [(''label'', JStr ''CDS Service Tutorial''),
                    (''url'', JStr ''https://github.com/cerner/cds-services-tutorial/wiki/Patient-View-Service'')]),
                (''links'', JArr [JObj
                   [(''label'', JStr ''Learn more about CDS Hooks''),
                    (''url'', JStr ''http://cds-hooks.org''),
                    (''type'', JStr ''absolute'')]])]])])
   \<and> sent (patient_view_example_part_000 (snd (parsed (patient_view_body ''Ana'' ''Lee'')))
        (post ''/cds-services/patient-view-example''
           (fst (parsed (patient_view_body ''Ana'' ''Lee'')))) new_response)
       = Some (JObj
            [(''cards'', JArr [JObj
               [(''summary'', JStr ''Now seeing: Ana Lee''),
                (''indicator'', JStr ''info''),
                (''links'', JArr [JObj
                   [(''label'', JStr ''Learn more about CDS Hooks''),
                    (''url'', JStr ''http://cds-hooks.org''),
                    (''type'', JStr ''absolute'')]])]])])"
proof -
  let ?h = "snd (parsed (patient_view_body ''Ana'' ''Lee''))"
  let ?R = "post ''/cds-services/patient-view-example''
              (fst (parsed (patient_view_body ''Ana'' ''Lee'')))"
  have p: "get_path ?h (body ?R)
      [Prop ''prefetch'', Prop ''requestedPatient'', Prop ''resource''] = Inr (Ref 4)"
    by (simp add: parsed_patient_view_body post_def own_def)
  have g: "get_path ?h (Ref 4) [Prop ''name'', Idx 0, Prop ''given'', Idx 0] = Inr (Str ''Ana'')"
    by (simp add: parsed_patient_view_body own_def)
  have f: "get_path ?h (Ref 4) [Prop ''name'', Idx 0, Prop ''family'', Idx 0] = Inr (Str ''Lee'')"
    by (simp add: parsed_patient_view_body own_def)
  have t: "to_string ?h [] (Str ''Ana'') = Inr ''Ana''" "to_string ?h [] (Str ''Lee'') = Inr ''Lee''"
    by simp_all
  from patient_view_card [OF p g t(1) f t(2), of new_response] p g f show ?thesis
    by (auto simp: sent_def send_def)
qed


end
